theory Spec2Isabelle
  imports Main "HOL-Library.Word" "HOL-Library.Multiset"
begin

chapter \<open>The inspection client as functions\<close>

text \<open>
  The repository holds four generations of the browser script. The current one (cache and
  resume, the long script of \<^verbatim>\<open>part_000\<close>) is modelled under the source's own names.
  Functions of the older generations that differ carry a suffix: \<open>_v1\<close> for the first
  script of \<^verbatim>\<open>frontend/script.js\<close>, \<open>_v2\<close> for the short script at the end of
  \<^verbatim>\<open>part_000\<close>, \<open>_v3\<close> for the second script of \<^verbatim>\<open>frontend/script.js\<close>.

  An \<^verbatim>\<open>await\<close>ed call is a call whose answer is an input of the model; an exception is a
  value of \<open>js_error\<close>; the global variables and \<^verbatim>\<open>localStorage\<close> are fields of a record
  that every function returns updated; what the page does to the outside (requests,
  beacons, dialogs) is appended to a trace.
\<close>

section \<open>JavaScript values\<close>

datatype js_error = TypeError | NetworkError | HttpError nat | ImageError | NotSupportedError

text \<open>
  A balloon number or a FIND NUMBER is a JSON value, of which the script observes two
  things: whether it is truthy, and its \<^verbatim>\<open>String\<close>. An integer from \<open>-2\<^sup>5\<^sup>3\<close> to \<open>2\<^sup>5\<^sup>3 - 1\<close> is a
  54-bit word read in two's complement; these are the integers that \<^verbatim>\<open>JSON.parse\<close> keeps
  as they are and that \<^verbatim>\<open>String\<close> prints in plain decimal. \<open>LOther t\<close> is any other value (a
  fraction, a number of larger magnitude, which \<^verbatim>\<open>String\<close> prints rounded or with an
  exponent, an array, an object), by its \<^verbatim>\<open>String\<close> \<open>t\<close>; all of these are truthy.
\<close>

datatype label = LNum "54 word" | LStr string | LBool bool | LNull | LOther string

definition digit_char :: "nat \<Rightarrow> char" where
  "digit_char d = ''0123456789abcdef'' ! d"

text \<open>The digits of a natural number in a radix from 2 to 16, as \<^verbatim>\<open>toString(radix)\<close> prints them.\<close>

function radix_digits :: "nat \<Rightarrow> nat \<Rightarrow> string" where
  "radix_digits b n =
     (if b < 2 \<or> n < b then [digit_char n]
      else radix_digits b (n div b) @ [digit_char (n mod b)])"
  by pat_completeness auto
termination
  by (relation "measure snd") auto

declare radix_digits.simps [simp del]

text \<open>The decimal numeral of an integer.\<close>

definition js_String_int :: "int \<Rightarrow> string" where
  "js_String_int i =
     (if i < 0 then CHR ''-'' # radix_digits 10 (nat (- i)) else radix_digits 10 (nat i))"

text \<open>\<^verbatim>\<open>String(v)\<close>; an absent value (\<^verbatim>\<open>undefined\<close>) is \<open>None\<close>.\<close>

fun js_String :: "label option \<Rightarrow> string" where
  "js_String None = ''undefined''"
| "js_String (Some (LNum i)) = js_String_int (sint i)"
| "js_String (Some (LStr s)) = s"
| "js_String (Some (LBool b)) = (if b then ''true'' else ''false'')"
| "js_String (Some LNull) = ''null''"
| "js_String (Some (LOther t)) = t"

text \<open>
  Truthiness: \<^verbatim>\<open>undefined\<close>, \<^verbatim>\<open>null\<close>, \<^verbatim>\<open>false\<close>, \<^verbatim>\<open>0\<close> and the empty string are falsy.
\<close>

fun truthy_label :: "label option \<Rightarrow> bool" where
  "truthy_label None = False"
| "truthy_label (Some (LNum i)) = (i \<noteq> 0)"
| "truthy_label (Some (LStr s)) = (s \<noteq> [])"
| "truthy_label (Some (LBool b)) = b"
| "truthy_label (Some LNull) = False"
| "truthy_label (Some (LOther t)) = True"

fun truthy_num :: "int option \<Rightarrow> bool" where
  "truthy_num None = False"
| "truthy_num (Some p) = (p \<noteq> 0)"

fun truthy_str :: "string option \<Rightarrow> bool" where
  "truthy_str None = False"
| "truthy_str (Some s) = (s \<noteq> [])"

section \<open>Balloons and the balloon mapping\<close>

text \<open>
  A balloon is a JSON object of which the script reads three properties. Each may be
  absent (\<open>None\<close>); for \<^verbatim>\<open>page\<close> and \<^verbatim>\<open>bbox\<close>, which are only tested and never printed
  before the test, \<open>None\<close> is also \<^verbatim>\<open>null\<close>. The page is a JSON integer; a box is
  \<open>(x1, y1, x2, y2)\<close>, an object and so always truthy.
\<close>

type_synonym box = "int \<times> int \<times> int \<times> int"

record balloon =
  balloon_number :: "label option"
  page :: "int option"
  bbox :: "box option"

text \<open>
  An element of the \<^verbatim>\<open>/balloon_results\<close> array is any JSON value. \<^verbatim>\<open>null\<close> has no
  properties, and reading one of it raises a TypeError. Every other value can be asked for
  a property: a number, a string, a boolean or an array has none of the three and is the
  object in which all three are absent.
\<close>

datatype element = JNull | JObject balloon

text \<open>The elements of an array that are not \<^verbatim>\<open>null\<close>, in their order.\<close>

fun objects :: "element list \<Rightarrow> balloon list" where
  "objects [] = []"
| "objects (JNull # es) = objects es"
| "objects (JObject b # es) = b # objects es"

text \<open>
  \<^verbatim>\<open>balloonMapping\<close> is a plain object \<^verbatim>\<open>{}\<close>: its own properties are the keys the script
  stored. A read \<^verbatim>\<open>balloonMapping[k]\<close> of a key that is not an own property falls through
  to \<^verbatim>\<open>Object.prototype\<close>, whose properties are listed here with the \<^verbatim>\<open>length\<close> of each
  inherited value (a function's arity; \<^verbatim>\<open>__proto__\<close> reads as the prototype object,
  which has no \<^verbatim>\<open>length\<close>). Every inherited value is truthy, and none has a
  \<^verbatim>\<open>push\<close> or a \<^verbatim>\<open>sort\<close> method.
\<close>

type_synonym mapping = "string \<rightharpoonup> balloon list"

definition object_prototype :: "(string \<times> nat option) list" where
  "object_prototype =
     [(''constructor'', Some 1), (''__defineGetter__'', Some 2), (''__defineSetter__'', Some 2),
      (''hasOwnProperty'', Some 1), (''__lookupGetter__'', Some 1), (''__lookupSetter__'', Some 1),
      (''isPrototypeOf'', Some 1), (''propertyIsEnumerable'', Some 1), (''toString'', Some 0),
      (''valueOf'', Some 0), (''__proto__'', None), (''toLocaleString'', Some 0)]"

definition inherited :: "string \<Rightarrow> bool" where
  "inherited k = (map_of object_prototype k \<noteq> None)"

datatype property = Own "balloon list" | Inherited "nat option" | Undefined

definition get_property :: "mapping \<Rightarrow> string \<Rightarrow> property" where
  "get_property m k =
     (case m k of
        Some xs \<Rightarrow> Own xs
      | None \<Rightarrow> (case map_of object_prototype k of
                   Some len \<Rightarrow> Inherited len
                 | None \<Rightarrow> Undefined))"

subsection \<open>loadBalloonMapping\<close>

text \<open>
  The guard of the current script, on an element that is not \<^verbatim>\<open>null\<close>:
  \<^verbatim>\<open>if (!b.balloon_number || !b.page || !b.bbox) { console.warn(...); return; }\<close>
\<close>

definition invalid_balloon :: "balloon \<Rightarrow> bool" where
  "invalid_balloon b =
     (\<not> truthy_label (balloon_number b) \<or> \<not> truthy_num (page b) \<or> bbox b = None)"

definition key_of :: "balloon \<Rightarrow> string" where
  "key_of b = js_String (balloon_number b)"

text \<open>
  The body of the \<^verbatim>\<open>forEach\<close>:
  \<^verbatim>\<open>const k = String(b.balloon_number);
  if (!balloonMapping[k]) balloonMapping[k] = [];
  balloonMapping[k].push(b);\<close>
  An own property is an array, which is truthy even when empty; an inherited value is
  truthy and has no \<^verbatim>\<open>push\<close>, so the call raises a TypeError.
\<close>

definition store_balloon :: "mapping \<Rightarrow> balloon \<Rightarrow> js_error + mapping" where
  "store_balloon m b =
     (case get_property m (key_of b) of
        Undefined \<Rightarrow> Inr (m(key_of b \<mapsto> [] @ [b]))
      | Own xs \<Rightarrow> Inr (m(key_of b \<mapsto> xs @ [b]))
      | Inherited len \<Rightarrow> Inl TypeError)"

text \<open>
  The callback of the \<^verbatim>\<open>forEach\<close> on one element \<^verbatim>\<open>b\<close>. The guard is its first statement
  and reads \<^verbatim>\<open>b.balloon_number\<close> first, which raises a TypeError when \<^verbatim>\<open>b\<close> is \<^verbatim>\<open>null\<close>.
\<close>

fun add_balloon :: "mapping \<Rightarrow> element \<Rightarrow> js_error + mapping" where
  "add_balloon m JNull = Inl TypeError"
| "add_balloon m (JObject b) = (if invalid_balloon b then Inr m else store_balloon m b)"

text \<open>
  \<^verbatim>\<open>balloonMapping = {}; d.forEach(...)\<close>: an exception in the callback ends the loop and
  leaves in the global what was stored so far.
\<close>

fun forEach_add :: "mapping \<Rightarrow> element list \<Rightarrow> js_error option \<times> mapping" where
  "forEach_add m [] = (None, m)"
| "forEach_add m (b # bs) =
     (case add_balloon m b of
        Inl e \<Rightarrow> (Some e, m)
      | Inr m' \<Rightarrow> forEach_add m' bs)"

definition build_mapping :: "element list \<Rightarrow> js_error option \<times> mapping" where
  "build_mapping d = forEach_add Map.empty d"

text \<open>
  The first script keeps one balloon for each number:
  \<^verbatim>\<open>balloonMapping = {}; d.forEach(b => balloonMapping[b.balloon_number] = b);\<close>
  A property key is the \<^verbatim>\<open>String\<close> of the value. Two runs are not followed (the result
  is \<open>None\<close>): a \<^verbatim>\<open>null\<close> element, on which the callback raises a TypeError, and a key
  \<^verbatim>\<open>__proto__\<close>, under which the assignment replaces the prototype instead of creating a
  property.
\<close>

fun forEach_put_v1 :: "(string \<rightharpoonup> balloon) \<Rightarrow> element list \<Rightarrow> (string \<rightharpoonup> balloon) option" where
  "forEach_put_v1 m [] = Some m"
| "forEach_put_v1 m (JNull # bs) = None"
| "forEach_put_v1 m (JObject b # bs) =
     (if key_of b = ''__proto__'' then None else forEach_put_v1 (m(key_of b \<mapsto> b)) bs)"

definition build_mapping_v1 :: "element list \<Rightarrow> (string \<rightharpoonup> balloon) option" where
  "build_mapping_v1 d = forEach_put_v1 Map.empty d"

subsection \<open>The join of loadDetails\<close>

text \<open>
  \<^verbatim>\<open>const entries = balloonMapping[String(findNumber)];
  if (!entries || entries.length === 0) { alert(...not found in the GA drawing...); return; }
  entries.sort((a, b) => a.page - b.page);\<close>
  \<^verbatim>\<open>Array.prototype.sort\<close> is stable, and on numbers the comparator orders by page, so
  the sort is the stable sort by page. Every balloon that \<open>add_balloon\<close> stores has a page.
  The result \<open>Inr None\<close> is the alert (the explicit empty result); an inherited value whose
  \<^verbatim>\<open>length\<close> is not 0 passes the test and has no \<^verbatim>\<open>sort\<close>.
\<close>

definition page_of :: "balloon \<Rightarrow> int" where
  "page_of b = (case page b of Some p \<Rightarrow> p | None \<Rightarrow> 0)"

definition find_entries :: "mapping \<Rightarrow> label option \<Rightarrow> js_error + balloon list option" where
  "find_entries m findNumber =
     (case get_property m (js_String findNumber) of
        Undefined \<Rightarrow> Inr None
      | Own xs \<Rightarrow> if length xs = 0 then Inr None else Inr (Some (sort_key page_of xs))
      | Inherited len \<Rightarrow> if len = Some 0 then Inr None else Inl TypeError)"

text \<open>
  The first script reads one balloon: \<^verbatim>\<open>const balloon = balloonMapping[findNumber];
  if (!balloon) return;\<close> and then shows \<^verbatim>\<open>balloon.page\<close>. The result is \<open>Some None\<close>
  when the function returns there; a key that is not stored but names an inherited
  property is not followed (\<open>None\<close>).
\<close>

definition find_entry_v1 :: "(string \<rightharpoonup> balloon) \<Rightarrow> label option \<Rightarrow> balloon option option" where
  "find_entry_v1 m findNumber =
     (case m (js_String findNumber) of
        Some balloon \<Rightarrow> Some (Some balloon)
      | None \<Rightarrow> if inherited (js_String findNumber) then None else Some None)"

section \<open>The GA viewer\<close>

text \<open>
  The viewer's global variables \<^verbatim>\<open>gaLoaded\<close>, \<^verbatim>\<open>currentPage\<close> and \<^verbatim>\<open>totalPages\<close>
  (initially \<^verbatim>\<open>false\<close>, \<^verbatim>\<open>1\<close> and \<^verbatim>\<open>0\<close>). Page numbers are JSON integers.
\<close>

record viewer =
  gaLoaded :: bool
  currentPage :: int
  totalPages :: int

text \<open>
  What \<^verbatim>\<open>loadGA\<close> assigns once \<^verbatim>\<open>/ga_pages\<close> has answered with \<^verbatim>\<open>d.pages\<close>, in
  every generation of the script:
  \<^verbatim>\<open>totalPages = d.pages; currentPage = 1; gaLoaded = true;\<close>
\<close>

definition set_pages :: "int \<Rightarrow> 'a viewer_scheme \<Rightarrow> 'a viewer_scheme" where
  "set_pages n v = v\<lparr>totalPages := n, currentPage := 1, gaLoaded := True\<rparr>"

definition page_in_range :: "'a viewer_scheme \<Rightarrow> bool" where
  "page_in_range v = (1 \<le> currentPage v \<and> currentPage v \<le> totalPages v)"

section \<open>Requests, replies and the state of the page\<close>

text \<open>
  The answer to a \<^verbatim>\<open>fetch\<close>: the promise rejects (or the body is not JSON), the response
  is not \<^verbatim>\<open>ok\<close> (with its HTTP status), or the parsed body.
\<close>

datatype 'a reply = Failed | Status nat | Ok 'a

definition reply_error :: "'a reply \<Rightarrow> js_error" where
  "reply_error r = (case r of Status c \<Rightarrow> HttpError c | _ \<Rightarrow> NetworkError)"

datatype request =
    UploadGA bool
  | BomDetails string
  | ResumeGA
  | ClearProgress string
  | BalloonResults
  | GAPages
  | JobStatus string
  | JobCancel string

text \<open>The summary of a checkpoint, \<^verbatim>\<open>data.progress_data\<close> of a resumable answer.\<close>

record progress =
  processed_pages :: int
  total_pages :: int
  progress_percent :: int
  balloons_so_far :: int
  last_update :: string
  remaining_pages :: int

datatype event =
    Fetch request
  | Beacon string
  | Alert string
  | Notification string
  | ResumeDialog progress
  | Render int
  | Highlight balloon
  | ShowProgress
  | HideProgress
  | UpdateProgress int
  | DetailsTable "(string \<times> string) list"
  | DetailsError
  | LeavePrompt

text \<open>
  The globals of the script and the \<^verbatim>\<open>ga_job_id\<close> item of \<^verbatim>\<open>localStorage\<close>.
  \<open>gaPollTimer\<close> is \<open>Some id\<close> while an interval polls job \<open>id\<close>.
\<close>

record client = viewer +
  balloonMapping :: mapping
  ga_job_id :: "string option"
  gaPollTimer :: "string option"
  isProcessingCompletion :: bool
  hasUnsavedChanges :: bool
  trace :: "event list"

definition emit :: "event \<Rightarrow> client \<Rightarrow> client" where
  "emit e s = s\<lparr>trace := trace s @ [e]\<rparr>"

definition initial_client :: client where
  "initial_client =
     \<lparr>gaLoaded = False, currentPage = 1, totalPages = 0, balloonMapping = Map.empty,
      ga_job_id = None, gaPollTimer = None, isProcessingCompletion = False,
      hasUnsavedChanges = False, trace = []\<rparr>"

text \<open>A value interpolated into a string or stored in \<^verbatim>\<open>localStorage\<close>.\<close>

definition js_str :: "string option \<Rightarrow> string" where
  "js_str v = (case v of None \<Rightarrow> ''undefined'' | Some t \<Rightarrow> t)"

definition API :: string where
  "API = ''http://localhost:8000''"

definition cancel_url :: "string \<Rightarrow> string" where
  "cancel_url jobId = API @ ''/job/cancel/'' @ jobId"

subsection \<open>What the functions of one run are answered\<close>

type_synonym bytes = "8 word list"

record upload_file =
  file_name :: string
  file_bytes :: bytes

text \<open>The body of the answer to \<^verbatim>\<open>/upload/ga\<close> and to \<^verbatim>\<open>/resume_ga\<close>.\<close>

record upload_data =
  status :: "string option"
  job_id :: "string option"
  detections :: int
  pages :: int
  progress_data :: "progress option"
  file_hash :: "string option"

datatype results_body = NotArray | Array "element list"

datatype choice = Resume | Fresh

datatype details_body = NoBody | Rows "(string \<times> string) list"

record world =
  gaFile :: "upload_file option"
  upload_reply :: "upload_data reply"
  force_reply :: "upload_data reply"
  resume_reply :: "upload_data reply"
  clear_reply :: "unit reply"
  results_reply :: "results_body reply"
  pages_reply :: "int reply"
  image_loads :: "int \<Rightarrow> bool"
  resume_choice :: "choice option"
  confirmed :: bool
  details_reply :: "details_body reply"

section \<open>Loading the results\<close>

text \<open>
  \<^verbatim>\<open>loadBalloonMapping\<close>: a failed or not-ok fetch is thrown again; a body that is not an
  array returns without touching \<^verbatim>\<open>balloonMapping\<close>; otherwise the mapping is rebuilt.
\<close>

definition loadBalloonMapping :: "world \<Rightarrow> client \<Rightarrow> js_error option \<times> client" where
  "loadBalloonMapping w s =
     (let s1 = emit (Fetch BalloonResults) s in
      case results_reply w of
        Ok NotArray \<Rightarrow> (None, s1)
      | Ok (Array d) \<Rightarrow> (fst (build_mapping d), s1\<lparr>balloonMapping := snd (build_mapping d)\<rparr>)
      | r \<Rightarrow> (Some (reply_error r), s1))"

text \<open>
  \<^verbatim>\<open>renderPage(p)\<close> resolves when the page image has loaded and rejects when it fails.
\<close>

definition renderPage :: "world \<Rightarrow> int \<Rightarrow> client \<Rightarrow> js_error option \<times> client" where
  "renderPage w p s = (if image_loads w p then None else Some ImageError, emit (Render p) s)"

definition loadGA :: "world \<Rightarrow> client \<Rightarrow> js_error option \<times> client" where
  "loadGA w s =
     (let s1 = emit (Fetch GAPages) s in
      case pages_reply w of
        Ok n \<Rightarrow> renderPage w 1 (set_pages n s1)
      | r \<Rightarrow> (Some (reply_error r), s1))"

definition resetGAViewer :: "client \<Rightarrow> client" where
  "resetGAViewer s =
     s\<lparr>gaLoaded := False, currentPage := 1, totalPages := 0, balloonMapping := Map.empty\<rparr>"

section \<open>Page navigation\<close>

text \<open>
  The current script:
  \<^verbatim>\<open>if (!gaLoaded || currentPage <= 1) return; currentPage--;\<close> and
  \<^verbatim>\<open>if (!gaLoaded || currentPage >= totalPages) return; currentPage++;\<close>, each followed by
  \<^verbatim>\<open>try { await renderPage(currentPage); } catch (error) { console.error(...); }\<close>
\<close>

definition prevPage :: "world \<Rightarrow> client \<Rightarrow> client" where
  "prevPage w s =
     (if \<not> gaLoaded s \<or> currentPage s \<le> 1 then s
      else snd (renderPage w (currentPage s - 1) (s\<lparr>currentPage := currentPage s - 1\<rparr>)))"

definition nextPage :: "world \<Rightarrow> client \<Rightarrow> client" where
  "nextPage w s =
     (if \<not> gaLoaded s \<or> currentPage s \<ge> totalPages s then s
      else snd (renderPage w (currentPage s + 1) (s\<lparr>currentPage := currentPage s + 1\<rparr>)))"

text \<open>
  The first script has no \<^verbatim>\<open>gaLoaded\<close> guard and does not wait for the rendering:
  \<^verbatim>\<open>if (currentPage < totalPages) { currentPage++; renderPage(currentPage); }\<close> and
  \<^verbatim>\<open>if (currentPage > 1) { currentPage--; renderPage(currentPage); }\<close>
\<close>

definition nextPage_v1 :: "client \<Rightarrow> client" where
  "nextPage_v1 s =
     (if currentPage s < totalPages s
      then emit (Render (currentPage s + 1)) (s\<lparr>currentPage := currentPage s + 1\<rparr>)
      else s)"

definition prevPage_v1 :: "client \<Rightarrow> client" where
  "prevPage_v1 s =
     (if currentPage s > 1
      then emit (Render (currentPage s - 1)) (s\<lparr>currentPage := currentPage s - 1\<rparr>)
      else s)"

datatype nav = Next | Prev

fun navigate :: "world \<Rightarrow> nav \<Rightarrow> client \<Rightarrow> client" where
  "navigate w Next s = nextPage w s"
| "navigate w Prev s = prevPage w s"

fun navigate_v1 :: "nav \<Rightarrow> client \<Rightarrow> client" where
  "navigate_v1 Next s = nextPage_v1 s"
| "navigate_v1 Prev s = prevPage_v1 s"

text \<open>A sequence of key presses or button clicks, oldest first.\<close>

fun navigate_all :: "world \<Rightarrow> nav list \<Rightarrow> client \<Rightarrow> client" where
  "navigate_all w [] s = s"
| "navigate_all w (k # ks) s = navigate_all w ks (navigate w k s)"

fun navigate_all_v1 :: "nav list \<Rightarrow> client \<Rightarrow> client" where
  "navigate_all_v1 [] s = s"
| "navigate_all_v1 (k # ks) s = navigate_all_v1 ks (navigate_v1 k s)"

section \<open>Polling a job\<close>

text \<open>
  \<^verbatim>\<open>stopPolling\<close>: \<^verbatim>\<open>if (gaPollTimer) { clearInterval(gaPollTimer); gaPollTimer = null; }
  isProcessingCompletion = false;\<close> and \<^verbatim>\<open>pollJob(id)\<close>, which stops the running
  interval and starts one for \<^verbatim>\<open>id\<close>.
\<close>

definition stopPolling :: "client \<Rightarrow> client" where
  "stopPolling s = s\<lparr>gaPollTimer := None, isProcessingCompletion := False\<rparr>"

definition pollJob :: "string \<Rightarrow> client \<Rightarrow> client" where
  "pollJob jobId s = (stopPolling s)\<lparr>gaPollTimer := Some jobId\<rparr>"

text \<open>The body of the answer to \<^verbatim>\<open>/job/status/{id}\<close>: \<^verbatim>\<open>status\<close>, \<^verbatim>\<open>progress\<close>, \<^verbatim>\<open>message\<close>.\<close>

record status_data =
  poll_status :: string
  poll_progress :: int
  poll_message :: "string option"

text \<open>
  One run of the interval's callback in the current script. The three tests on
  \<^verbatim>\<open>s.status\<close> follow one another as in the source. Loading the results in the
  \<^verbatim>\<open>complete\<close> branch has its own \<^verbatim>\<open>try\<close>: a failure alerts, and \<^verbatim>\<open>finally\<close> hides
  the progress modal.
\<close>

definition load_results :: "world \<Rightarrow> client \<Rightarrow> js_error option \<times> client" where
  "load_results w s =
     (case loadBalloonMapping w s of
        (Some e, s1) \<Rightarrow> (Some e, s1)
      | (None, s1) \<Rightarrow> loadGA w s1)"

definition on_complete :: "world \<Rightarrow> status_data \<Rightarrow> client \<Rightarrow> client" where
  "on_complete w st s =
     (if poll_status st = ''complete'' then
        (let s1 = (stopPolling (s\<lparr>isProcessingCompletion := True\<rparr>))\<lparr>ga_job_id := None\<rparr>;
             s2 = (case load_results w s1 of
                     (None, s') \<Rightarrow> s'
                   | (Some e, s') \<Rightarrow> emit (Alert ''Error loading GA results. Please refresh and try again.'') s')
         in (emit HideProgress s2)\<lparr>isProcessingCompletion := False\<rparr>)
      else s)"

definition on_cancelled :: "status_data \<Rightarrow> client \<Rightarrow> client" where
  "on_cancelled st s =
     (if poll_status st = ''cancelled'' then
        emit HideProgress ((stopPolling s)\<lparr>ga_job_id := None\<rparr>)
      else s)"

definition on_error :: "status_data \<Rightarrow> client \<Rightarrow> client" where
  "on_error st s =
     (if poll_status st = ''error'' then
        emit (Alert (''GA processing error: '' @
                (if truthy_str (poll_message st) then js_str (poll_message st) else ''Unknown error'')))
          (emit HideProgress ((stopPolling s)\<lparr>ga_job_id := None\<rparr>))
      else s)"

definition poll_tick :: "world \<Rightarrow> status_data reply \<Rightarrow> client \<Rightarrow> client" where
  "poll_tick w r s =
     (case gaPollTimer s of
        None \<Rightarrow> s
      | Some jobId \<Rightarrow>
          if isProcessingCompletion s then s
          else (let s1 = emit (Fetch (JobStatus jobId)) s in
                case r of
                  Ok st \<Rightarrow>
                    on_error st (on_cancelled st (on_complete w st
                      (emit (UpdateProgress (poll_progress st)) s1)))
                | _ \<Rightarrow>
                    emit (Alert ''Lost connection to server. Please refresh and try again.'')
                      (emit HideProgress (stopPolling s1))))"

text \<open>
  The callback of the short script at the end of \<^verbatim>\<open>part_000\<close>: the answer is not
  tested for \<^verbatim>\<open>ok\<close>, the third state it knows is \<^verbatim>\<open>failed\<close>, and one \<^verbatim>\<open>catch\<close>
  covers the whole body. Two paths are not followed (\<open>None\<close>): an answer that is not
  \<^verbatim>\<open>ok\<close>, whose error body that script reads like a status, and the \<^verbatim>\<open>complete\<close>
  branch, which loads the results with that script's own loaders.
\<close>

definition poll_tick_v2 :: "status_data reply \<Rightarrow> client \<Rightarrow> client option" where
  "poll_tick_v2 r s =
     (case gaPollTimer s of
        None \<Rightarrow> Some s
      | Some jobId \<Rightarrow>
          (let s1 = emit (Fetch (JobStatus jobId)) s in
           case r of
             Ok st \<Rightarrow>
               (let s2 = emit (UpdateProgress (poll_progress st)) s1 in
                if poll_status st = ''complete'' then None
                else if poll_status st = ''cancelled'' then
                  Some (emit (Alert ''GA processing cancelled'')
                         (emit HideProgress (s2\<lparr>gaPollTimer := None, ga_job_id := None\<rparr>)))
                else if poll_status st = ''failed'' then
                  Some (emit (Alert ''GA processing failed'')
                         (emit HideProgress (s2\<lparr>gaPollTimer := None, ga_job_id := None\<rparr>)))
                else Some s2)
           | Status c \<Rightarrow> None
           | Failed \<Rightarrow> Some (emit HideProgress (s1\<lparr>gaPollTimer := None\<rparr>))))"

section \<open>Uploading a GA drawing\<close>

text \<open>
  Alerts and notifications carry their text without the leading symbol and, for an alert
  about an exception, without the exception's message. \<^verbatim>\<open>resetProgressModal\<close> followed
  by \<^verbatim>\<open>showProgressModal\<close> is the event \<open>ShowProgress\<close>.

  \<^verbatim>\<open>localStorage.setItem("ga_job_id", data.job_id); pollJob(data.job_id);\<close>
\<close>

definition start_polling :: "upload_data \<Rightarrow> client \<Rightarrow> client" where
  "start_polling data s = pollJob (js_str (job_id data)) (s\<lparr>ga_job_id := Some (js_str (job_id data))\<rparr>)"

definition resumeGAProcessing :: "world \<Rightarrow> client \<Rightarrow> client" where
  "resumeGAProcessing w s =
     (let s1 = emit (Fetch ResumeGA) (emit ShowProgress (resetGAViewer s)) in
      case resume_reply w of
        Ok data \<Rightarrow> start_polling data s1
      | _ \<Rightarrow> emit (Alert ''Error resuming GA'') (emit HideProgress s1))"

text \<open>
  \<^verbatim>\<open>startFreshGAProcessing(file, fileHash)\<close>. The request that clears the checkpoint is
  awaited inside its own \<^verbatim>\<open>try\<close>; the answer is not read, and a rejection is only
  logged as a warning.
\<close>

definition startFreshGAProcessing :: "world \<Rightarrow> string \<Rightarrow> client \<Rightarrow> client" where
  "startFreshGAProcessing w fileHash s =
     (let s1 = (case clear_reply w of
                  Failed \<Rightarrow> emit (Fetch (ClearProgress fileHash)) s
                | _ \<Rightarrow> emit (Fetch (ClearProgress fileHash)) s);
          s2 = emit (Fetch (UploadGA True)) (emit ShowProgress (resetGAViewer s1)) in
      case force_reply w of
        Ok data \<Rightarrow> start_polling data s2
      | _ \<Rightarrow> emit (Alert ''Error starting fresh'') (emit HideProgress s2))"

text \<open>The \<^verbatim>\<open>catch\<close> of \<^verbatim>\<open>uploadGA\<close>.\<close>

definition upload_failed :: "client \<Rightarrow> client" where
  "upload_failed s = emit (Alert ''Error uploading GA'') (emit HideProgress s)"

definition cached_message :: "upload_data \<Rightarrow> string" where
  "cached_message data =
     ''Loaded cached results: '' @ js_String_int (detections data) @
     '' balloons detected on '' @ js_String_int (pages data) @ '' pages''"

text \<open>
  \<^verbatim>\<open>uploadGA\<close>: three tests on the answer, each ending in \<^verbatim>\<open>return\<close>. The resume dialog
  reads the fields of \<^verbatim>\<open>data.progress_data\<close>, so an answer without it raises into the
  \<^verbatim>\<open>catch\<close>. The dialog resolves to \<^verbatim>\<open>"resume"\<close>, \<^verbatim>\<open>"fresh"\<close> or \<^verbatim>\<open>null\<close>.
\<close>

definition uploadGA :: "world \<Rightarrow> client \<Rightarrow> client" where
  "uploadGA w s =
     (case gaFile w of
        None \<Rightarrow> emit (Alert ''Select GA file'') s
      | Some f \<Rightarrow>
          (let s1 = emit (Fetch (UploadGA False)) s in
           case upload_reply w of
             Ok data \<Rightarrow>
               if status data = Some ''cached'' then
                 (case load_results w (emit HideProgress s1) of
                    (None, s2) \<Rightarrow> emit (Notification (cached_message data)) s2
                  | (Some e, s2) \<Rightarrow> upload_failed s2)
               else if status data = Some ''resumable'' then
                 (case progress_data data of
                    None \<Rightarrow> upload_failed s1
                  | Some p \<Rightarrow>
                      (let s2 = emit (ResumeDialog p) s1 in
                       case resume_choice w of
                         Some Resume \<Rightarrow> resumeGAProcessing w s2
                       | Some Fresh \<Rightarrow> startFreshGAProcessing w (js_str (file_hash data)) s2
                       | None \<Rightarrow> s2))
               else if truthy_str (job_id data) then
                 pollJob (js_str (job_id data))
                   ((emit ShowProgress (resetGAViewer s1))\<lparr>ga_job_id := Some (js_str (job_id data))\<rparr>)
               else s1
           | _ \<Rightarrow> upload_failed s1))"

subsection \<open>The content hash of forceReprocessGA\<close>

text \<open>
  \<^verbatim>\<open>hashArray.map(b => b.toString(16).padStart(2, '0')).join('')\<close>
\<close>

definition padStart :: "nat \<Rightarrow> char \<Rightarrow> string \<Rightarrow> string" where
  "padStart n c t = replicate (n - length t) c @ t"

definition hex_byte :: "8 word \<Rightarrow> string" where
  "hex_byte b = padStart 2 (CHR ''0'') (radix_digits 16 (unat b))"

definition hex_string :: "bytes \<Rightarrow> string" where
  "hex_string bs = concat (map hex_byte bs)"

text \<open>
  \<^verbatim>\<open>crypto.subtle.digest(name, data)\<close>. The Web Cryptography API registers four digest
  algorithms, SHA-1, SHA-256, SHA-384 and SHA-512, matches the name without regard to
  case, and rejects any other name with a NotSupportedError. The four hash functions are
  the browser's and are parameters here.
\<close>

record platform =
  sha1 :: "bytes \<Rightarrow> bytes"
  sha256 :: "bytes \<Rightarrow> bytes"
  sha384 :: "bytes \<Rightarrow> bytes"
  sha512 :: "bytes \<Rightarrow> bytes"

definition ascii_upper :: "char \<Rightarrow> char" where
  "ascii_upper c =
     (case map_of (zip ''abcdefghijklmnopqrstuvwxyz'' ''ABCDEFGHIJKLMNOPQRSTUVWXYZ'') c of
        Some u \<Rightarrow> u
      | None \<Rightarrow> c)"

definition subtle_digest :: "platform \<Rightarrow> string \<Rightarrow> bytes \<Rightarrow> js_error + bytes" where
  "subtle_digest P name data =
     (let a = map ascii_upper name in
      if a = ''SHA-1'' then Inr (sha1 P data)
      else if a = ''SHA-256'' then Inr (sha256 P data)
      else if a = ''SHA-384'' then Inr (sha384 P data)
      else if a = ''SHA-512'' then Inr (sha512 P data)
      else Inl NotSupportedError)"

text \<open>
  The hash that \<^verbatim>\<open>forceReprocessGA\<close> computes:
  \<^verbatim>\<open>const hashBuffer = await crypto.subtle.digest('MD5', arrayBuffer);\<close> and the hex string
  of its bytes.
\<close>

definition fileHash :: "platform \<Rightarrow> upload_file \<Rightarrow> js_error + string" where
  "fileHash P f =
     (case subtle_digest P ''MD5'' (file_bytes f) of
        Inl e \<Rightarrow> Inl e
      | Inr hashBuffer \<Rightarrow> Inr (hex_string hashBuffer))"

definition forceReprocessGA :: "platform \<Rightarrow> world \<Rightarrow> client \<Rightarrow> js_error option \<times> client" where
  "forceReprocessGA P w s =
     (case gaFile w of
        None \<Rightarrow> (None, emit (Alert ''Select GA file first'') s)
      | Some f \<Rightarrow>
          if \<not> confirmed w then (None, s)
          else (case fileHash P f of
                  Inl e \<Rightarrow> (Some e, s)
                | Inr h \<Rightarrow> (None, startFreshGAProcessing w h s)))"

section \<open>Leaving the page\<close>

text \<open>
  The \<^verbatim>\<open>beforeunload\<close> handler of the current script. \<^verbatim>\<open>if (jobId)\<close> is false for
  \<^verbatim>\<open>null\<close> and for the empty string. The beacon's body is the session id.
\<close>

definition beforeunload :: "client \<Rightarrow> client" where
  "beforeunload s =
     (let s1 = (if truthy_str (ga_job_id s)
                then (emit (Beacon (cancel_url (js_str (ga_job_id s)))) s)\<lparr>ga_job_id := None\<rparr>
                else s)
      in if hasUnsavedChanges s1 then emit LeavePrompt s1 else s1)"

text \<open>
  The second script of \<^verbatim>\<open>frontend/script.js\<close> registers three handlers. \<^verbatim>\<open>beforeunload\<close>
  and \<^verbatim>\<open>pagehide\<close> send the beacon and remove the item; \<^verbatim>\<open>visibilitychange\<close>, when the
  document is hidden, posts the cancellation with \<^verbatim>\<open>keepalive\<close> and falls back to a
  beacon when that request is rejected; it leaves the item in place.
\<close>

definition beforeunload_v3 :: "client \<Rightarrow> client" where
  "beforeunload_v3 s =
     (if truthy_str (ga_job_id s)
      then (emit (Beacon (cancel_url (js_str (ga_job_id s)))) s)\<lparr>ga_job_id := None\<rparr>
      else s)"

definition pagehide_v3 :: "client \<Rightarrow> client" where
  "pagehide_v3 s =
     (if truthy_str (ga_job_id s)
      then (emit (Beacon (cancel_url (js_str (ga_job_id s)))) s)\<lparr>ga_job_id := None\<rparr>
      else s)"

definition visibilitychange_v3 :: "bool \<Rightarrow> bool \<Rightarrow> client \<Rightarrow> client" where
  "visibilitychange_v3 hidden rejected s =
     (if hidden \<and> truthy_str (ga_job_id s)
      then (let s1 = emit (Fetch (JobCancel (js_str (ga_job_id s)))) s
            in if rejected then emit (Beacon (cancel_url (js_str (ga_job_id s)))) s1 else s1)
      else s)"

datatype page_event = BeforeUnload | PageHide | VisibilityChange bool bool

fun handle_v3 :: "page_event \<Rightarrow> client \<Rightarrow> client" where
  "handle_v3 BeforeUnload s = beforeunload_v3 s"
| "handle_v3 PageHide s = pagehide_v3 s"
| "handle_v3 (VisibilityChange hidden rejected) s = visibilitychange_v3 hidden rejected s"

fun handle_all_v3 :: "page_event list \<Rightarrow> client \<Rightarrow> client" where
  "handle_all_v3 [] s = s"
| "handle_all_v3 (e # es) s = handle_all_v3 es (handle_v3 e s)"

text \<open>The cancellation signals in a trace: beacons and cancel requests.\<close>

fun is_cancel_signal :: "event \<Rightarrow> bool" where
  "is_cancel_signal (Beacon u) = True"
| "is_cancel_signal (Fetch (JobCancel j)) = True"
| "is_cancel_signal e = False"

definition cancel_signals :: "client \<Rightarrow> event list" where
  "cancel_signals s = filter is_cancel_signal (trace s)"

fun is_request :: "event \<Rightarrow> bool" where
  "is_request (Fetch r) = True"
| "is_request e = False"

definition requests :: "client \<Rightarrow> event list" where
  "requests s = filter is_request (trace s)"

section \<open>Escaping for the checklist\<close>

text \<open>
  \<^verbatim>\<open>sanitizeHTML\<close> assigns the string to \<^verbatim>\<open>textContent\<close> of a fresh \<^verbatim>\<open>div\<close> and reads
  \<^verbatim>\<open>innerHTML\<close>: the HTML serialisation of one text node, which replaces \<^verbatim>\<open>&\<close>,
  \<^verbatim>\<open><\<close>, \<^verbatim>\<open>>\<close> and the no-break space (code unit A0) and copies every other code unit,
  the double quote among them. A \<open>char\<close> stands for a code unit below 256.
\<close>

definition escape_char :: "char \<Rightarrow> string" where
  "escape_char c =
     (if c = CHR ''&'' then ''&amp;''
      else if c = CHR ''<'' then ''&lt;''
      else if c = CHR ''>'' then ''&gt;''
      else if c = CHR 0xA0 then ''&nbsp;''
      else [c])"

definition sanitizeHTML :: "string \<Rightarrow> string" where
  "sanitizeHTML str = concat (map escape_char str)"

text \<open>
  The HTML parser, as far as the output of \<^verbatim>\<open>sanitizeHTML\<close> needs it. Before the
  tokenizer sees the input, newlines are normalised: a CR LF pair becomes one LF, and
  every other CR becomes LF.
\<close>

fun normalize_newlines :: "string \<Rightarrow> string" where
  "normalize_newlines [] = []"
| "normalize_newlines [c] = [if c = CHR 0x0D then CHR 0x0A else c]"
| "normalize_newlines (c # d # cs) =
     (if c = CHR 0x0D
      then CHR 0x0A # (if d = CHR 0x0A then normalize_newlines cs else normalize_newlines (d # cs))
      else c # normalize_newlines (d # cs))"

text \<open>
  After \<^verbatim>\<open>&\<close> the tokenizer knows the references \<^verbatim>\<open>amp\<close>, \<^verbatim>\<open>lt\<close>, \<^verbatim>\<open>gt\<close>, \<^verbatim>\<open>nbsp\<close> and
  \<^verbatim>\<open>quot\<close>. A NUL character in element content is dropped when the tree is built; in an
  attribute value it is replaced by U+FFFD, which is no code unit below 256. \<open>None\<close> is
  an input outside this fragment: in element content a \<^verbatim>\<open><\<close> (where markup starts), in
  an attribute value a NUL, and anywhere an \<^verbatim>\<open>&\<close> that starts none of the five references.
\<close>

definition char_ref :: "string \<Rightarrow> (char \<times> nat) option" where
  "char_ref cs =
     (if take 4 cs = ''amp;'' then Some (CHR ''&'', 4)
      else if take 3 cs = ''lt;'' then Some (CHR ''<'', 3)
      else if take 3 cs = ''gt;'' then Some (CHR ''>'', 3)
      else if take 5 cs = ''nbsp;'' then Some (CHR 0xA0, 5)
      else if take 5 cs = ''quot;'' then Some (CHR 0x22, 5)
      else None)"

text \<open>
  \<open>decode markup skip cs\<close>: the text of \<open>cs\<close> after skipping \<open>skip\<close> characters of a
  reference already read; \<open>markup\<close> says whether \<^verbatim>\<open><\<close> starts a tag (element content)
  or is literal (an attribute value).
\<close>

fun decode :: "bool \<Rightarrow> nat \<Rightarrow> string \<Rightarrow> string option" where
  "decode markup skip [] = Some []"
| "decode markup (Suc skip) (c # cs) = decode markup skip cs"
| "decode markup 0 (c # cs) =
     (if c = CHR ''<'' \<and> markup then None
      else if c = CHR 0x00 then (if markup then decode markup 0 cs else None)
      else if c = CHR ''&'' then
        (case char_ref cs of
           None \<Rightarrow> None
         | Some (d, skip) \<Rightarrow> map_option ((#) d) (decode markup skip cs))
      else map_option ((#) c) (decode markup 0 cs))"

text \<open>The text content of a table cell whose \<^verbatim>\<open>innerHTML\<close> is the given string.\<close>

definition cell_text :: "string \<Rightarrow> string option" where
  "cell_text html = decode True 0 (normalize_newlines html)"

text \<open>
  The value of an attribute written \<^verbatim>\<open>value="..."\<close>, read from the text that follows
  the opening quote: the value ends at the first double quote.
\<close>

definition attribute_value :: "string \<Rightarrow> string option" where
  "attribute_value html =
     decode False 0 (takeWhile (\<lambda>c. c \<noteq> CHR 0x22) (normalize_newlines html))"

text \<open>
  The row template of \<^verbatim>\<open>renderChecklist\<close> puts FIND NUMBER and PART DESCRIPTION into
  cells, \<^verbatim>\<open><td>${findNumber}</td>\<close>, and the remarks into an attribute:
  \<^verbatim>\<open><input class="remarks-input" ... value="${sanitizeHTML(item.remarks || "")}">\<close>.
  \<open>remarks_markup\<close> is the template's text from the value on.
\<close>

definition remarks_markup :: "string \<Rightarrow> string" where
  "remarks_markup remarks = sanitizeHTML remarks @ [CHR 0x22, CHR ''>'']"

section \<open>Details of a checklist row and its balloons\<close>

fun join_pages :: "balloon list \<Rightarrow> string" where
  "join_pages [] = []"
| "join_pages [b] = js_String_int (page_of b)"
| "join_pages (b # bs) = js_String_int (page_of b) @ '', '' @ join_pages bs"

text \<open>
  \<^verbatim>\<open>loadDetails(findNumber)\<close> first fills the details table. When the BOM has no details
  for the row (\<^verbatim>\<open>!d || Object.keys(d).length === 0\<close>) the function returns there,
  before it looks at the GA; a failed details request is reported in the table and the
  function goes on.
\<close>

definition no_details :: "world \<Rightarrow> bool" where
  "no_details w = (details_reply w = Ok NoBody \<or> details_reply w = Ok (Rows []))"

definition show_details :: "world \<Rightarrow> label option \<Rightarrow> client \<Rightarrow> client" where
  "show_details w findNumber s =
     (let s1 = emit (Fetch (BomDetails (js_String findNumber))) s in
      case details_reply w of
        Ok NoBody \<Rightarrow> emit (DetailsTable []) s1
      | Ok (Rows rs) \<Rightarrow> emit (DetailsTable (map (\<lambda>(k, v). (sanitizeHTML k, sanitizeHTML v)) rs)) s1
      | _ \<Rightarrow> emit DetailsError s1)"

text \<open>
  The part after \<^verbatim>\<open>if (!gaLoaded) return;\<close>: the join, then the page of the first
  occurrence is shown and highlighted and the other pages are announced. The sort is in
  place, so the sorted list is what the mapping holds afterwards. \<^verbatim>\<open>entries[0]\<close> of an
  empty array would be \<^verbatim>\<open>undefined\<close>, whose \<^verbatim>\<open>page\<close> cannot be read.
\<close>

definition show_balloons :: "world \<Rightarrow> label option \<Rightarrow> client \<Rightarrow> js_error option \<times> client" where
  "show_balloons w findNumber s =
     (case find_entries (balloonMapping s) findNumber of
        Inl e \<Rightarrow> (Some e, s)
      | Inr None \<Rightarrow> (None, emit (Alert ''Item is not found in the GA drawing'') s)
      | Inr (Some []) \<Rightarrow> (Some TypeError, s)
      | Inr (Some (firstOccurrence # others)) \<Rightarrow>
          (case renderPage w (page_of firstOccurrence)
                  (s\<lparr>balloonMapping :=
                        (balloonMapping s)(js_String findNumber \<mapsto> firstOccurrence # others),
                      currentPage := page_of firstOccurrence\<rparr>) of
             (Some e, s1) \<Rightarrow> (Some e, s1)
           | (None, s1) \<Rightarrow>
               (None,
                if others = [] then emit (Highlight firstOccurrence) s1
                else emit (Notification
                             (''Balloon '' @ js_String findNumber @
                              (if length others = 1 then '' also appears on page ''
                               else '' also appears on pages: '') @ join_pages others))
                       (emit (Highlight firstOccurrence) s1))))"

definition loadDetails :: "world \<Rightarrow> label option \<Rightarrow> client \<Rightarrow> js_error option \<times> client" where
  "loadDetails w findNumber s =
     (if no_details w then (None, show_details w findNumber s)
      else if \<not> gaLoaded (show_details w findNumber s) then (None, show_details w findNumber s)
      else show_balloons w findNumber (show_details w findNumber s))"

section \<open>The server, from the specification\<close>

text \<open>
  Modelled from the spec: the server (CacheStore, ProgressCheckpoint, JobManager and the
  upload decision protocol of sections 4.2 to 4.6) is not among the sources. A cache entry
  is \<open>{hash, page_count, detections}\<close>, a checkpoint \<open>{hash, processed_pages, total_pages,
  balloons_so_far, last_update}\<close>, a job \<open>{job_id, hash, owner_session, state}\<close>; a job's
  id is its position in the list of jobs, so ids are never reused.
\<close>

type_synonym content_hash = string

record cache_entry =
  page_count :: nat
  cached_detections :: "balloon list"

record checkpoint =
  checkpoint_processed :: nat
  checkpoint_total :: nat
  checkpoint_balloons :: "balloon list"
  checkpoint_updated :: string

datatype job_state = Queued | Running | Complete | Cancelled | Errored

record job =
  job_hash :: content_hash
  owner_session :: string
  job_state :: job_state

record server =
  cache :: "content_hash \<rightharpoonup> cache_entry"
  checkpoints :: "content_hash \<rightharpoonup> checkpoint"
  jobs :: "job list"

text \<open>
  Modelled from the spec: \<open>finalize(hash, page_count, detections)\<close> of the missing
  CacheStore writes the cache entry, which every later lookup of the hash returns.
\<close>

definition finalize :: "server \<Rightarrow> content_hash \<Rightarrow> nat \<Rightarrow> balloon list \<Rightarrow> server" where
  "finalize srv h n dets =
     srv\<lparr>cache := (cache srv)(h \<mapsto> \<lparr>page_count = n, cached_detections = dets\<rparr>)\<rparr>"

text \<open>
  Modelled from the spec: \<open>clear(hash)\<close> of the missing ProgressCheckpoint; idempotent.
\<close>

definition clear :: "server \<Rightarrow> content_hash \<Rightarrow> server" where
  "clear srv h = srv\<lparr>checkpoints := (checkpoints srv)(h := None)\<rparr>"

text \<open>
  Modelled from the spec: the mutual exclusion of the missing JobManager. A hash is owned
  while a running job has it; at most one job does.
\<close>

definition owned :: "server \<Rightarrow> content_hash \<Rightarrow> bool" where
  "owned srv h = list_ex (\<lambda>j. job_hash j = h \<and> job_state j = Running) (jobs srv)"

text \<open>
  Modelled from the spec: the end of the missing run loop (section 4.4, step 4): finalize,
  then clear, then the transition to \<open>complete\<close> of the job that ran, which is the running
  job that owns the hash.
\<close>

definition complete_job :: "content_hash \<Rightarrow> job \<Rightarrow> job" where
  "complete_job h j =
     (if job_hash j = h \<and> job_state j = Running then j\<lparr>job_state := Complete\<rparr> else j)"

definition complete_run :: "server \<Rightarrow> content_hash \<Rightarrow> nat \<Rightarrow> balloon list \<Rightarrow> server" where
  "complete_run srv h n dets =
     (let srv' = clear (finalize srv h n dets) h
      in srv'\<lparr>jobs := map (complete_job h) (jobs srv')\<rparr>)"

text \<open>
  Modelled from the spec: \<open>start(hash, session)\<close> is refused with a Conflict while a
  running job owns the hash, and otherwise creates a job that runs from page 1.
\<close>

datatype decision = Cached nat nat | Resumable checkpoint | Started nat | Conflict

definition start :: "server \<Rightarrow> content_hash \<Rightarrow> string \<Rightarrow> decision \<times> server" where
  "start srv h session =
     (if owned srv h then (Conflict, srv)
      else (Started (length (jobs srv)),
            srv\<lparr>jobs := jobs srv @ [\<lparr>job_hash = h, owner_session = session, job_state = Running\<rparr>]\<rparr>))"

text \<open>
  Modelled from the spec: the upload decision protocol of section 4.6. The hash is
  \<open>computeHash\<close> of the uploaded bytes, a parameter. A cache entry answers \<open>cached\<close> with
  the page count and the number of detections; otherwise a checkpoint answers
  \<open>resumable\<close>; otherwise, or with the force flag (which first clears the checkpoint),
  a job is started.
\<close>

definition upload_decide ::
  "(bytes \<Rightarrow> content_hash) \<Rightarrow> server \<Rightarrow> bytes \<Rightarrow> string \<Rightarrow> bool \<Rightarrow> decision \<times> server" where
  "upload_decide computeHash srv content session force =
     (let h = computeHash content in
      if force then start (clear srv h) h session
      else (case cache srv h of
              Some e \<Rightarrow> (Cached (page_count e) (length (cached_detections e)), srv)
            | None \<Rightarrow>
                (case checkpoints srv h of
                   Some c \<Rightarrow> (Resumable c, srv)
                 | None \<Rightarrow> start srv h session)))"

text \<open>
  Modelled from the spec: the checkpoint summary of a \<open>resumable\<close> answer (processed
  pages, total pages, number of balloons so far, last update), under the field names of
  \<^verbatim>\<open>data.progress_data\<close> that the client's dialog reads, and the job id as the string the
  client stores.
\<close>

definition summary_of :: "checkpoint \<Rightarrow> progress" where
  "summary_of c =
     \<lparr>processed_pages = int (checkpoint_processed c),
      total_pages = int (checkpoint_total c),
      progress_percent = int (100 * checkpoint_processed c div checkpoint_total c),
      balloons_so_far = int (length (checkpoint_balloons c)),
      last_update = checkpoint_updated c,
      remaining_pages = int (checkpoint_total c - checkpoint_processed c)\<rparr>"

definition job_name :: "nat \<Rightarrow> string" where
  "job_name j = ''job-'' @ radix_digits 10 j"

text \<open>
  Modelled from the spec: the answer as the client reads it, under the field names the
  client uses (\<^verbatim>\<open>status\<close>, \<^verbatim>\<open>pages\<close>, \<^verbatim>\<open>detections\<close>, \<^verbatim>\<open>progress_data\<close>, \<^verbatim>\<open>file_hash\<close>,
  \<^verbatim>\<open>job_id\<close>); a Conflict is an answer that is not \<^verbatim>\<open>ok\<close>.
\<close>

definition answer_of :: "content_hash \<Rightarrow> decision \<Rightarrow> upload_data reply" where
  "answer_of h d =
     (case d of
        Cached n k \<Rightarrow>
          Ok \<lparr>status = Some ''cached'', job_id = None, detections = int k, pages = int n,
              progress_data = None, file_hash = Some h\<rparr>
      | Resumable c \<Rightarrow>
          Ok \<lparr>status = Some ''resumable'', job_id = None, detections = 0, pages = 0,
              progress_data = Some (summary_of c), file_hash = Some h\<rparr>
      | Started j \<Rightarrow>
          Ok \<lparr>status = Some ''processing'', job_id = Some (job_name j),
              detections = 0, pages = 0, progress_data = None, file_hash = Some h\<rparr>
      | Conflict \<Rightarrow> Status 409)"

text \<open>
  Modelled from the spec: the page's upload request answered by the missing endpoint: the
  world in which the answer to \<^verbatim>\<open>/upload/ga\<close> without the force flag is the server's
  decision on the selected file.
\<close>

definition served :: "(bytes \<Rightarrow> content_hash) \<Rightarrow> server \<Rightarrow> string \<Rightarrow> world \<Rightarrow> world" where
  "served computeHash srv session w =
     (case gaFile w of
        None \<Rightarrow> w
      | Some f \<Rightarrow>
          w\<lparr>upload_reply :=
              answer_of (computeHash (file_bytes f))
                (fst (upload_decide computeHash srv (file_bytes f) session False))\<rparr>)"

text \<open>
  Modelled from the spec: the missing upload endpoint called again with the same content,
  once for each session of the list, without the force flag.
\<close>

fun upload_again ::
  "(bytes \<Rightarrow> content_hash) \<Rightarrow> server \<Rightarrow> bytes \<Rightarrow> string list \<Rightarrow> decision list \<times> server" where
  "upload_again computeHash srv content [] = ([], srv)"
| "upload_again computeHash srv content (session # sessions) =
     (case upload_decide computeHash srv content session False of
        (d, srv') \<Rightarrow>
          (case upload_again computeHash srv' content sessions of
             (ds, srv'') \<Rightarrow> (d # ds, srv'')))"

section \<open>Notions used in the statements\<close>

text \<open>
  The balloons of a result list that pass the guard and whose key is \<open>k\<close>, in the order of
  the list.
\<close>

definition hits :: "element list \<Rightarrow> string \<Rightarrow> balloon list" where
  "hits d k = filter (\<lambda>b. \<not> invalid_balloon b \<and> key_of b = k) (objects d)"

definition entries_of :: "mapping \<Rightarrow> string \<Rightarrow> balloon list" where
  "entries_of m k = (case m k of None \<Rightarrow> [] | Some xs \<Rightarrow> xs)"

text \<open>
  An element that the guard sends back, and an element on which the callback raises
  nothing: one that the guard sends back, or a balloon whose key is not inherited.
\<close>

fun malformed_object :: "element \<Rightarrow> bool" where
  "malformed_object JNull = False"
| "malformed_object (JObject b) = invalid_balloon b"

fun harmless :: "element \<Rightarrow> bool" where
  "harmless JNull = False"
| "harmless (JObject b) = (invalid_balloon b \<or> \<not> inherited (key_of b))"

text \<open>Every stored list is non-empty and holds guarded balloons of the result list under their key.\<close>

definition well_keyed :: "element list \<Rightarrow> mapping \<Rightarrow> bool" where
  "well_keyed d m =
     (\<forall>k xs. m k = Some xs \<longrightarrow>
        xs \<noteq> [] \<and> (\<forall>b \<in> set xs. JObject b \<in> set d \<and> \<not> invalid_balloon b \<and> key_of b = k))"

text \<open>
  The events whose handlers in the second script of \<^verbatim>\<open>frontend/script.js\<close> remove the
  stored job id, and what its \<^verbatim>\<open>visibilitychange\<close> handler sends for job \<open>j\<close>.
\<close>

fun unloading :: "page_event \<Rightarrow> bool" where
  "unloading BeforeUnload = True"
| "unloading PageHide = True"
| "unloading (VisibilityChange hidden rejected) = False"

fun hidden_signals :: "string \<Rightarrow> page_event \<Rightarrow> event list" where
  "hidden_signals j (VisibilityChange hidden rejected) =
     (if hidden
      then Fetch (JobCancel j) # (if rejected then [Beacon (cancel_url j)] else [])
      else [])"
| "hidden_signals j e = []"

text \<open>The requests that can make the server start a job: an upload and a resume.\<close>

fun is_job_request :: "event \<Rightarrow> bool" where
  "is_job_request (Fetch (UploadGA force)) = True"
| "is_job_request (Fetch ResumeGA) = True"
| "is_job_request e = False"

definition job_requests :: "client \<Rightarrow> event list" where
  "job_requests s = filter is_job_request (trace s)"

text \<open>The three states in which a job has ended.\<close>

definition terminal :: "string \<Rightarrow> bool" where
  "terminal st = (st = ''complete'' \<or> st = ''cancelled'' \<or> st = ''error'')"

section \<open>Concrete inputs\<close>

text \<open>A world in which no request is answered, and a result list with two malformed entries.\<close>

definition quiet_world :: world where
  "quiet_world =
     \<lparr>gaFile = None, upload_reply = Failed, force_reply = Failed, resume_reply = Failed,
      clear_reply = Failed, results_reply = Failed, pages_reply = Failed,
      image_loads = (\<lambda>p. True), resume_choice = None, confirmed = False,
      details_reply = Failed\<rparr>"

text \<open>The server holds a GA of three pages.\<close>

definition three_pages :: world where
  "three_pages = quiet_world\<lparr>pages_reply := Ok 3\<rparr>"

definition balloon_at :: "label \<Rightarrow> int \<Rightarrow> balloon" where
  "balloon_at l p = \<lparr>balloon_number = Some l, page = Some p, bbox = Some (10, 10, 40, 40)\<rparr>"

definition sample_results :: "element list" where
  "sample_results =
     [JObject (balloon_at (LNum 12) 3),
      JObject \<lparr>balloon_number = Some (LNum 7), page = Some 2, bbox = None\<rparr>,
      JObject (balloon_at (LStr ''7'') 2),
      JObject \<lparr>balloon_number = None, page = Some 1, bbox = Some (0, 0, 5, 5)\<rparr>,
      JObject (balloon_at (LNum 12) 1)]"

text \<open>A result list with a \<^verbatim>\<open>null\<close> between two balloons numbered 12.\<close>

definition null_results :: "element list" where
  "null_results = [JObject (balloon_at (LNum 12) 3), JNull, JObject (balloon_at (LNum 12) 1)]"

text \<open>The scenario of the specification with its pages out of order, and a viewer that has loaded it.\<close>

definition scenario :: "balloon list" where
  "scenario = [balloon_at (LNum 12) 3, balloon_at (LNum 7) 2, balloon_at (LNum 12) 1]"

definition details_world :: world where
  "details_world = quiet_world\<lparr>details_reply := Ok (Rows [(''FIND NUMBER'', ''12'')])\<rparr>"

definition viewing :: "balloon list \<Rightarrow> client" where
  "viewing d = (set_pages 3 initial_client)\<lparr>balloonMapping := snd (build_mapping (map JObject d))\<rparr>"

text \<open>A page with a running job.\<close>

definition job_stored :: client where
  "job_stored = initial_client\<lparr>ga_job_id := Some ''job-1'', gaPollTimer := Some ''job-1''\<rparr>"

text \<open>Answers of the server and a selected file.\<close>

definition sample_progress :: progress where
  "sample_progress =
     \<lparr>processed_pages = 2, total_pages = 5, progress_percent = 40, balloons_so_far = 17,
      last_update = ''2025-01-07T10:15:00'', remaining_pages = 3\<rparr>"

definition job_reply :: "string \<Rightarrow> upload_data" where
  "job_reply j =
     \<lparr>status = None, job_id = Some j, detections = 0, pages = 0, progress_data = None,
      file_hash = None\<rparr>"

definition resumable_reply :: upload_data where
  "resumable_reply =
     \<lparr>status = Some ''resumable'', job_id = None, detections = 0, pages = 0,
      progress_data = Some sample_progress, file_hash = Some ''9e107d9d372bb6826bd81d3542a419d6''\<rparr>"

definition sample_file :: upload_file where
  "sample_file = \<lparr>file_name = ''ga.pdf'', file_bytes = [0x25, 0x50, 0x44, 0x46]\<rparr>"

definition fresh_world :: world where
  "fresh_world =
     quiet_world\<lparr>gaFile := Some sample_file, upload_reply := Ok resumable_reply,
       resume_choice := Some Fresh, clear_reply := Status 404, force_reply := Ok (job_reply ''job-2'')\<rparr>"

text \<open>A page that is answered \<^verbatim>\<open>cached\<close> and can load the results.\<close>

definition cached_reply :: upload_data where
  "cached_reply =
     \<lparr>status = Some ''cached'', job_id = None, detections = 3, pages = 3, progress_data = None,
      file_hash = Some ''9e107d9d372bb6826bd81d3542a419d6''\<rparr>"

definition cached_world :: world where
  "cached_world =
     quiet_world\<lparr>gaFile := Some sample_file, upload_reply := Ok cached_reply,
       results_reply := Ok (Array (map JObject scenario)), pages_reply := Ok 3\<rparr>"

text \<open>The answer of a job that ended in an error after two of five pages.\<close>

definition error_report :: status_data where
  "error_report =
     \<lparr>poll_status = ''error'', poll_progress = 40, poll_message = Some ''Detection failed on page 3''\<rparr>"

text \<open>A remark with an inch mark: 3" pipe.\<close>

definition inch_remark :: string where
  "inch_remark = [CHR ''3'', CHR 0x22, CHR '' '', CHR ''p'', CHR ''i'', CHR ''p'', CHR ''e'']"

text \<open>A server that has seen nothing, and the hash of a file by its length (any function will do).\<close>

definition empty_server :: server where
  "empty_server = \<lparr>cache = Map.empty, checkpoints = Map.empty, jobs = []\<rparr>"

definition length_hash :: "bytes \<Rightarrow> content_hash" where
  "length_hash content = radix_digits 16 (length content)"

definition finished_server :: server where
  "finished_server = complete_run empty_server (length_hash (file_bytes sample_file)) 3 scenario"

text \<open>
  A server on which session a has just started a job for the file, one on which that job
  has completed, and one that holds a checkpoint of the file after two of five pages.
\<close>

definition busy_server :: server where
  "busy_server = snd (start empty_server (length_hash (file_bytes sample_file)) ''session-a'')"

definition done_server :: server where
  "done_server = complete_run busy_server (length_hash (file_bytes sample_file)) 3 scenario"




chapter \<open>Verification\<close>

section \<open>Numbers as labels\<close>

text \<open>
  The integers that \<open>LNum\<close> holds are those from \<open>-2\<^sup>5\<^sup>3\<close> to \<open>2\<^sup>5\<^sup>3 - 1\<close>, and only zero is
  falsy among them.
\<close>

lemma LNum_range: "- (2 ^ 53) \<le> sint (i :: 54 word) \<and> sint i < 2 ^ 53"
  using sint_ge [of i] sint_lt [of i] by simp

lemma truthy_LNum: "truthy_label (Some (LNum i)) = (sint i \<noteq> 0)"
  by (simp add: signed_eq_0_iff)

lemma js_String_examples:
  "js_String (Some (LNum 12)) = ''12''"
  "js_String (Some (LNum (- 3))) = ''-3''"
  "js_String (Some (LNum 0)) = ''0''"
  "js_String (Some (LNum (- (2 ^ 53)))) = ''-9007199254740992''"
  "js_String (Some LNull) = ''null''"
  "js_String None = ''undefined''"
  by (simp_all add: js_String_int_def radix_digits.simps digit_char_def)

section \<open>Navigation keeps the page in range\<close>

lemma navigate_frame:
  "totalPages (navigate w k s) = totalPages s" "gaLoaded (navigate w k s) = gaLoaded s"
  by (cases k; simp add: nextPage_def prevPage_def renderPage_def emit_def)+

lemma navigate_v1_frame:
  "totalPages (navigate_v1 k s) = totalPages s"
  by (cases k; simp add: nextPage_v1_def prevPage_v1_def emit_def)

lemma navigate_in_range: "page_in_range s \<Longrightarrow> page_in_range (navigate w k s)"
  by (cases k; auto simp: page_in_range_def nextPage_def prevPage_def renderPage_def emit_def)

lemma navigate_v1_in_range: "page_in_range s \<Longrightarrow> page_in_range (navigate_v1 k s)"
  by (cases k; auto simp: page_in_range_def nextPage_v1_def prevPage_v1_def emit_def)

lemma navigate_all_in_range: "page_in_range s \<Longrightarrow> page_in_range (navigate_all w ks s)"
  by (induction ks arbitrary: s) (simp_all add: navigate_in_range)

lemma navigate_all_v1_in_range:
  "page_in_range s \<Longrightarrow> page_in_range (navigate_all_v1 ks s)"
  by (induction ks arbitrary: s) (simp_all add: navigate_v1_in_range)

lemma navigate_all_totalPages: "totalPages (navigate_all w ks s) = totalPages s"
  by (induction ks arbitrary: s) (simp_all add: navigate_frame)

lemma navigate_all_v1_totalPages: "totalPages (navigate_all_v1 ks s) = totalPages s"
  by (induction ks arbitrary: s) (simp_all add: navigate_v1_frame)

lemma set_pages_in_range: "1 \<le> N \<Longrightarrow> page_in_range (set_pages N s)"
  by (simp add: page_in_range_def set_pages_def)

lemma loadGA_pages:
  "pages_reply w = Ok N \<Longrightarrow>
   snd (loadGA w s) = emit (Render 1) (set_pages N (emit (Fetch GAPages) s))"
  by (simp add: loadGA_def renderPage_def)

lemma loadGA_in_range:
  assumes "pages_reply w = Ok N" "1 \<le> N"
  shows "page_in_range (snd (loadGA w s))" "totalPages (snd (loadGA w s)) = N"
  using assms by (simp_all add: loadGA_pages page_in_range_def set_pages_def emit_def)

text \<open>
  C9. After \<^verbatim>\<open>loadGA\<close> has loaded a GA with \<open>N \<ge> 1\<close> pages, every sequence of \<^verbatim>\<open>nextPage\<close>
  and \<^verbatim>\<open>prevPage\<close> calls leaves \<open>1 \<le> currentPage \<le> N\<close>, whether the page images load or
  not, and so do the two functions of the first script after the assignments of its
  \<^verbatim>\<open>loadGA\<close>; \<^verbatim>\<open>nextPage\<close> on the last page and \<^verbatim>\<open>prevPage\<close> on page 1 change nothing
  and render nothing.
\<close>

theorem page_navigation_bounded:
  assumes "pages_reply w = Ok N" and "1 \<le> N"
  shows "1 \<le> currentPage (navigate_all w' ks (snd (loadGA w s)))
       \<and> currentPage (navigate_all w' ks (snd (loadGA w s))) \<le> N
       \<and> 1 \<le> currentPage (navigate_all_v1 ks (set_pages N s))
       \<and> currentPage (navigate_all_v1 ks (set_pages N s)) \<le> N
       \<and> (currentPage t = totalPages t \<longrightarrow> nextPage w' t = t \<and> nextPage_v1 t = t)
       \<and> (currentPage t = 1 \<longrightarrow> prevPage w' t = t \<and> prevPage_v1 t = t)"
proof -
  have "page_in_range (navigate_all w' ks (snd (loadGA w s)))"
    using assms by (intro navigate_all_in_range loadGA_in_range)
  moreover have "page_in_range (navigate_all_v1 ks (set_pages N s))"
    using assms by (intro navigate_all_v1_in_range set_pages_in_range)
  moreover have "totalPages (set_pages N s) = N"
    by (simp add: set_pages_def)
  ultimately show ?thesis
    using loadGA_in_range(2) [OF assms, of s]
    by (simp add: page_in_range_def navigate_all_totalPages navigate_all_v1_totalPages
        nextPage_def prevPage_def nextPage_v1_def prevPage_v1_def)
qed

theorem page_navigation_bounded_witness:
  "currentPage (navigate_all quiet_world [Next, Next, Next, Prev, Next, Next]
                  (snd (loadGA three_pages initial_client))) = 3
   \<and> trace (navigate_all quiet_world [Next, Next, Next, Prev, Next, Next]
              (snd (loadGA three_pages initial_client)))
       = [Fetch GAPages, Render 1, Render 2, Render 3, Render 2, Render 3]
   \<and> currentPage (navigate_all_v1 [Prev, Next, Prev, Prev] (set_pages 3 initial_client)) = 1
   \<and> nextPage quiet_world (set_pages 1 initial_client) = set_pages 1 initial_client
   \<and> prevPage_v1 (set_pages 1 initial_client) = set_pages 1 initial_client"
proof -
  have r: "pages_reply three_pages = Ok 3"
    by (simp add: three_pages_def quiet_world_def)
  have h: "(1::int) \<le> 3" by simp
  note b = page_navigation_bounded [OF r h, where w' = quiet_world and s = initial_client
      and ks = "[Next, Next, Next, Prev, Next, Next]" and t = "set_pages 1 initial_client"]
  have l: "snd (loadGA three_pages initial_client)
           = emit (Render 1) (set_pages 3 (emit (Fetch GAPages) initial_client))"
    by (rule loadGA_pages [OF r])
  have "currentPage (navigate_all quiet_world [Next, Next, Next, Prev, Next, Next]
           (snd (loadGA three_pages initial_client))) = 3"
    unfolding l
    by (simp add: set_pages_def initial_client_def nextPage_def prevPage_def renderPage_def
        emit_def)
  moreover have "trace (navigate_all quiet_world [Next, Next, Next, Prev, Next, Next]
           (snd (loadGA three_pages initial_client)))
       = [Fetch GAPages, Render 1, Render 2, Render 3, Render 2, Render 3]"
    unfolding l
    by (simp add: set_pages_def initial_client_def nextPage_def prevPage_def renderPage_def
        emit_def)
  moreover have "currentPage (navigate_all_v1 [Prev, Next, Prev, Prev]
           (set_pages 3 initial_client)) = 1"
    by (simp add: set_pages_def initial_client_def nextPage_v1_def prevPage_v1_def emit_def)
  moreover have "nextPage quiet_world (set_pages 1 initial_client) = set_pages 1 initial_client"
    using b by (simp add: set_pages_def initial_client_def)
  moreover have "prevPage_v1 (set_pages 1 initial_client) = set_pages 1 initial_client"
    using b by (simp add: set_pages_def initial_client_def)
  ultimately show ?thesis using b by simp
qed

section \<open>The balloon mapping\<close>

lemma add_balloon_invalid: "malformed_object e \<Longrightarrow> add_balloon m e = Inr m"
  by (cases e) simp_all

lemma forEach_add_filter:
  "forEach_add m (filter (\<lambda>e. \<not> malformed_object e) d) = forEach_add m d"
  by (induction d arbitrary: m) (simp_all add: add_balloon_invalid split: sum.splits)

lemma add_balloon_well_keyed:
  assumes "well_keyed d m" "add_balloon m e = Inr m'" "e \<in> set d"
  shows "well_keyed d m'"
proof (cases e)
  case JNull
  with assms show ?thesis by simp
next
  case (JObject b)
  with assms have "(if invalid_balloon b then Inr m else store_balloon m b) = Inr m'"
    and "JObject b \<in> set d"
    by simp_all
  with assms(1) show ?thesis
    unfolding well_keyed_def store_balloon_def get_property_def
    by (fastforce split: if_splits option.splits)
qed

lemma forEach_add_well_keyed:
  "well_keyed d m \<Longrightarrow> set bs \<subseteq> set d \<Longrightarrow> well_keyed d (snd (forEach_add m bs))"
proof (induction bs arbitrary: m)
  case Nil
  then show ?case by simp
next
  case (Cons b bs)
  show ?case
  proof (cases "add_balloon m b")
    case (Inl e)
    with Cons.prems show ?thesis by simp
  next
    case (Inr m')
    with Cons.prems have "well_keyed d m'"
      by (auto intro: add_balloon_well_keyed)
    with Cons Inr show ?thesis by simp
  qed
qed

lemma build_mapping_well_keyed: "well_keyed d (snd (build_mapping d))"
  unfolding build_mapping_def
  by (rule forEach_add_well_keyed) (simp_all add: well_keyed_def)

lemma add_balloon_harmless: "harmless e \<Longrightarrow> \<exists>m'. add_balloon m e = Inr m'"
  by (cases e) (auto simp: store_balloon_def get_property_def inherited_def split: option.splits)

lemma forEach_add_total:
  "\<forall>e \<in> set bs. harmless e \<Longrightarrow> fst (forEach_add m bs) = None"
proof (induction bs arbitrary: m)
  case Nil
  then show ?case by simp
next
  case (Cons b bs)
  then obtain m' where "add_balloon m b = Inr m'"
    using add_balloon_harmless [of b m] by auto
  with Cons show ?case by simp
qed

text \<open>Every exception of the loop is a TypeError, and a \<^verbatim>\<open>null\<close> element never gets past it.\<close>

lemma add_balloon_TypeError: "add_balloon m e = Inl x \<Longrightarrow> x = TypeError"
  by (cases e) (auto simp: store_balloon_def split: if_splits property.splits)

lemma forEach_add_null:
  "JNull \<in> set bs \<Longrightarrow> fst (forEach_add m bs) = Some TypeError"
proof (induction bs arbitrary: m)
  case Nil
  then show ?case by simp
next
  case (Cons b bs)
  show ?case
  proof (cases "add_balloon m b")
    case (Inl x)
    then show ?thesis using add_balloon_TypeError [OF Inl] by simp
  next
    case (Inr m')
    then have "b \<noteq> JNull" by auto
    with Cons Inr show ?thesis by simp
  qed
qed

lemma build_mapping_no_null: "fst (build_mapping d) = None \<Longrightarrow> JNull \<notin> set d"
  using forEach_add_null [of d Map.empty] by (auto simp: build_mapping_def)

lemma add_balloon_valid:
  assumes "\<not> invalid_balloon b" "add_balloon m (JObject b) = Inr m'"
  shows "m' = m(key_of b \<mapsto> entries_of m (key_of b) @ [b])"
  using assms
  by (auto simp: store_balloon_def get_property_def entries_of_def split: option.splits)

lemma forEach_add_entries:
  assumes "fst (forEach_add m bs) = None"
    and "\<forall>k xs. m k = Some xs \<longrightarrow> xs \<noteq> []"
  shows "snd (forEach_add m bs) k =
           (if entries_of m k @ hits bs k = [] then None else Some (entries_of m k @ hits bs k))"
  using assms
proof (induction bs arbitrary: m)
  case Nil
  then show ?case by (auto simp: hits_def entries_of_def split: option.splits)
next
  case (Cons e bs)
  show ?case
  proof (cases e)
    case JNull
    with Cons.prems(1) show ?thesis by simp
  next
    case (JObject b)
    show ?thesis
    proof (cases "invalid_balloon b")
      case True
      with Cons JObject show ?thesis by (simp add: hits_def)
    next
      case False
      from Cons.prems(1) JObject obtain m' where ab: "add_balloon m (JObject b) = Inr m'"
        by (cases "add_balloon m (JObject b)") auto
      have m': "m' = m(key_of b \<mapsto> entries_of m (key_of b) @ [b])"
        using False ab by (rule add_balloon_valid)
      have ne: "\<forall>k xs. m' k = Some xs \<longrightarrow> xs \<noteq> []"
        using Cons.prems(2) by (auto simp: m')
      have "fst (forEach_add m' bs) = None"
        using Cons.prems(1) ab JObject by simp
      then have "snd (forEach_add m' bs) k =
             (if entries_of m' k @ hits bs k = [] then None else Some (entries_of m' k @ hits bs k))"
        using Cons.IH [of m'] ne by simp
      moreover have "entries_of m' k @ hits bs k = entries_of m k @ hits (e # bs) k"
        using False JObject by (auto simp: m' entries_of_def hits_def)
      ultimately show ?thesis using ab JObject by simp
    qed
  qed
qed

lemma build_mapping_entries:
  assumes "fst (build_mapping d) = None"
  shows "snd (build_mapping d) k = (if hits d k = [] then None else Some (hits d k))"
  using forEach_add_entries [of Map.empty d k] assms
  by (simp add: build_mapping_def entries_of_def)

lemma find_entries_loaded:
  assumes "fst (build_mapping d) = None" "\<not> inherited (js_String n)"
  shows "find_entries (snd (build_mapping d)) n =
           Inr (if hits d (js_String n) = [] then None
                else Some (sort_key page_of (hits d (js_String n))))"
  using assms
  by (simp add: find_entries_def get_property_def build_mapping_entries inherited_def)

lemma loadBalloonMapping_Array:
  "results_reply w = Ok (Array d) \<Longrightarrow>
   loadBalloonMapping w s =
     (fst (build_mapping d), (emit (Fetch BalloonResults) s)\<lparr>balloonMapping := snd (build_mapping d)\<rparr>)"
  by (simp add: loadBalloonMapping_def)

text \<open>
  What \<^verbatim>\<open>loadBalloonMapping\<close> does on every array. It stores a balloon only if its
  \<^verbatim>\<open>balloon_number\<close>, \<^verbatim>\<open>page\<close> and \<^verbatim>\<open>bbox\<close> are truthy, and every key of the mapping holds
  a non-empty list of such balloons of the array whose \<^verbatim>\<open>String(b.balloon_number)\<close> is the
  key. Objects that fail the guard are skipped: the call behaves as on the array without
  them. It raises nothing when every element is such an object or a balloon whose key is
  not inherited, and it raises a TypeError whenever an element is \<^verbatim>\<open>null\<close>.
\<close>

lemma loadBalloonMapping_valid_entries:
  assumes "results_reply w = Ok (Array d)"
  shows "loadBalloonMapping (w\<lparr>results_reply := Ok (Array (filter (\<lambda>e. \<not> malformed_object e) d))\<rparr>) s
           = loadBalloonMapping w s"
    and "\<forall>k xs. balloonMapping (snd (loadBalloonMapping w s)) k = Some xs \<longrightarrow>
             xs \<noteq> [] \<and>
             (\<forall>b \<in> set xs. JObject b \<in> set d \<and> truthy_label (balloon_number b) \<and> truthy_num (page b)
                \<and> bbox b \<noteq> None \<and> js_String (balloon_number b) = k)"
    and "(\<forall>e \<in> set d. malformed_object e) \<longrightarrow>
             fst (loadBalloonMapping w s) = None
             \<and> balloonMapping (snd (loadBalloonMapping w s)) = Map.empty"
    and "(\<forall>e \<in> set d. harmless e) \<longrightarrow> fst (loadBalloonMapping w s) = None"
    and "JNull \<in> set d \<longrightarrow> fst (loadBalloonMapping w s) = Some TypeError"
proof -
  show "loadBalloonMapping (w\<lparr>results_reply := Ok (Array (filter (\<lambda>e. \<not> malformed_object e) d))\<rparr>) s
           = loadBalloonMapping w s"
    using assms by (simp add: loadBalloonMapping_def build_mapping_def forEach_add_filter)
next
  have "well_keyed d (balloonMapping (snd (loadBalloonMapping w s)))"
    using build_mapping_well_keyed [of d] assms by (simp add: loadBalloonMapping_Array)
  then show "\<forall>k xs. balloonMapping (snd (loadBalloonMapping w s)) k = Some xs \<longrightarrow>
             xs \<noteq> [] \<and>
             (\<forall>b \<in> set xs. JObject b \<in> set d \<and> truthy_label (balloon_number b) \<and> truthy_num (page b)
                \<and> bbox b \<noteq> None \<and> js_String (balloon_number b) = k)"
    unfolding well_keyed_def invalid_balloon_def key_of_def by blast
next
  show "(\<forall>e \<in> set d. malformed_object e) \<longrightarrow>
             fst (loadBalloonMapping w s) = None
             \<and> balloonMapping (snd (loadBalloonMapping w s)) = Map.empty"
  proof
    assume all: "\<forall>e \<in> set d. malformed_object e"
    then have "filter (\<lambda>e. \<not> malformed_object e) d = []"
      by (simp add: filter_empty_conv)
    then have "forEach_add Map.empty d = (None, Map.empty)"
      using forEach_add_filter [of Map.empty d] by simp
    then show "fst (loadBalloonMapping w s) = None
             \<and> balloonMapping (snd (loadBalloonMapping w s)) = Map.empty"
      using assms by (simp add: loadBalloonMapping_Array build_mapping_def)
  qed
next
  show "(\<forall>e \<in> set d. harmless e) \<longrightarrow> fst (loadBalloonMapping w s) = None"
    using assms forEach_add_total [of d Map.empty]
    by (simp add: loadBalloonMapping_Array build_mapping_def)
next
  show "JNull \<in> set d \<longrightarrow> fst (loadBalloonMapping w s) = Some TypeError"
    using assms forEach_add_null [of d Map.empty]
    by (simp add: loadBalloonMapping_Array build_mapping_def)
qed

lemmas eval_mapping =
  loadBalloonMapping_def build_mapping_def store_balloon_def invalid_balloon_def key_of_def
  get_property_def object_prototype_def inherited_def js_String_int_def radix_digits.simps
  digit_char_def balloon_at_def emit_def

lemma loadBalloonMapping_sample:
  "fst (loadBalloonMapping (quiet_world\<lparr>results_reply := Ok (Array sample_results)\<rparr>) initial_client) = None"
  "balloonMapping (snd (loadBalloonMapping (quiet_world\<lparr>results_reply := Ok (Array sample_results)\<rparr>)
        initial_client)) ''12'' = Some [balloon_at (LNum 12) 3, balloon_at (LNum 12) 1]"
  "balloonMapping (snd (loadBalloonMapping (quiet_world\<lparr>results_reply := Ok (Array sample_results)\<rparr>)
        initial_client)) ''7'' = Some [balloon_at (LStr ''7'') 2]"
  "balloonMapping (snd (loadBalloonMapping (quiet_world\<lparr>results_reply := Ok (Array sample_results)\<rparr>)
        initial_client)) ''undefined'' = None"
  by (simp_all add: sample_results_def eval_mapping)

text \<open>
  C8 fails on a \<^verbatim>\<open>null\<close> entry. The guard that skips malformed entries reads
  \<^verbatim>\<open>b.balloon_number\<close> of the entry itself, so on \<^verbatim>\<open>null\<close> it raises a TypeError, which
  \<^verbatim>\<open>loadBalloonMapping\<close> logs and throws again: the entry is not skipped, the loop ends
  there, and the balloons after it are never stored. Here the balloon numbered 12 on page
  1 is lost, and an array that holds nothing but \<^verbatim>\<open>null\<close> raises as well.
\<close>

theorem loadBalloonMapping_null_entry:
  "fst (loadBalloonMapping (quiet_world\<lparr>results_reply := Ok (Array null_results)\<rparr>) initial_client)
     = Some TypeError
   \<and> balloonMapping (snd (loadBalloonMapping (quiet_world\<lparr>results_reply := Ok (Array null_results)\<rparr>)
        initial_client)) ''12'' = Some [balloon_at (LNum 12) 3]
   \<and> fst (loadBalloonMapping (quiet_world\<lparr>results_reply := Ok (Array [JNull])\<rparr>) initial_client)
       = Some TypeError
   \<and> hits null_results ''12'' = [balloon_at (LNum 12) 3, balloon_at (LNum 12) 1]"
  by (simp add: null_results_def hits_def eval_mapping)

section \<open>The join of a checklist row with its balloons\<close>

lemma emit_frame [simp]:
  "gaLoaded (emit e s) = gaLoaded s"
  "currentPage (emit e s) = currentPage s"
  "totalPages (emit e s) = totalPages s"
  "balloonMapping (emit e s) = balloonMapping s"
  "ga_job_id (emit e s) = ga_job_id s"
  "gaPollTimer (emit e s) = gaPollTimer s"
  "isProcessingCompletion (emit e s) = isProcessingCompletion s"
  "hasUnsavedChanges (emit e s) = hasUnsavedChanges s"
  "trace (emit e s) = trace s @ [e]"
  by (simp_all add: emit_def)

lemma show_details_frame:
  "gaLoaded (show_details w n s) = gaLoaded s"
  "balloonMapping (show_details w n s) = balloonMapping s"
  by (simp_all add: show_details_def Let_def split: reply.splits details_body.splits)

lemma loadDetails_not_found:
  assumes "\<not> no_details w" "gaLoaded s" "find_entries (balloonMapping s) n = Inr None"
  shows "fst (loadDetails w n s) = None
       \<and> last (trace (snd (loadDetails w n s))) = Alert ''Item is not found in the GA drawing''"
  using assms
  by (simp add: loadDetails_def show_balloons_def show_details_frame emit_def)

lemma loadDetails_found:
  assumes "\<not> no_details w" "gaLoaded s" "find_entries (balloonMapping s) n = Inr (Some (b # bs))"
    and "image_loads w (page_of b)"
  shows "fst (loadDetails w n s) = None
       \<and> currentPage (snd (loadDetails w n s)) = page_of b
       \<and> balloonMapping (snd (loadDetails w n s)) (js_String n) = Some (b # bs)
       \<and> Highlight b \<in> set (trace (snd (loadDetails w n s)))"
  using assms
  by (simp add: loadDetails_def show_balloons_def show_details_frame emit_def renderPage_def)

text \<open>
  C1, as amended. In the current script, for every result list that loaded without an
  exception and every FIND NUMBER whose string does not name a property that every object
  inherits, the join returns exactly the balloons with a truthy \<^verbatim>\<open>balloon_number\<close>,
  \<^verbatim>\<open>page\<close> and \<^verbatim>\<open>bbox\<close> whose \<^verbatim>\<open>String(balloon_number)\<close> is the string of the FIND
  NUMBER, in a stable sort ascending by page. When there is none, \<^verbatim>\<open>loadDetails\<close> shows
  the not-found alert and raises nothing; otherwise it shows the page of the first entry
  and leaves the sorted list in the mapping.
\<close>

theorem checklist_join:
  assumes "fst (build_mapping d) = None"
    and "balloonMapping s = snd (build_mapping d)"
    and "\<not> inherited (js_String n)"
    and "hs = filter (\<lambda>b. \<not> invalid_balloon b \<and> js_String (balloon_number b) = js_String n) (objects d)"
  shows "find_entries (balloonMapping s) n =
           Inr (if hs = [] then None else Some (sort_key page_of hs))
       \<and> sorted (map page_of (sort_key page_of hs))
       \<and> mset (sort_key page_of hs) = mset hs
       \<and> (\<forall>p. filter (\<lambda>b. page_of b = p) (sort_key page_of hs) = filter (\<lambda>b. page_of b = p) hs)
       \<and> (gaLoaded s \<and> \<not> no_details w \<and> hs = [] \<longrightarrow>
            fst (loadDetails w n s) = None
            \<and> last (trace (snd (loadDetails w n s))) = Alert ''Item is not found in the GA drawing'')
       \<and> (gaLoaded s \<and> \<not> no_details w \<and> hs \<noteq> [] \<and> image_loads w (page_of (hd (sort_key page_of hs))) \<longrightarrow>
            fst (loadDetails w n s) = None
            \<and> currentPage (snd (loadDetails w n s)) = page_of (hd (sort_key page_of hs))
            \<and> balloonMapping (snd (loadDetails w n s)) (js_String n) = Some (sort_key page_of hs))"
proof -
  have hs: "hs = hits d (js_String n)"
    by (simp add: assms(4) hits_def key_of_def)
  have fe: "find_entries (balloonMapping s) n =
           Inr (if hs = [] then None else Some (sort_key page_of hs))"
    using find_entries_loaded [OF assms(1,3)] by (simp add: assms(2) hs)
  have nf: "gaLoaded s \<and> \<not> no_details w \<and> hs = [] \<longrightarrow>
            fst (loadDetails w n s) = None
            \<and> last (trace (snd (loadDetails w n s))) = Alert ''Item is not found in the GA drawing''"
    using fe loadDetails_not_found [of w s n] by simp
  have fd: "gaLoaded s \<and> \<not> no_details w \<and> hs \<noteq> [] \<and> image_loads w (page_of (hd (sort_key page_of hs))) \<longrightarrow>
            fst (loadDetails w n s) = None
            \<and> currentPage (snd (loadDetails w n s)) = page_of (hd (sort_key page_of hs))
            \<and> balloonMapping (snd (loadDetails w n s)) (js_String n) = Some (sort_key page_of hs)"
  proof (intro impI, elim conjE)
    assume a: "gaLoaded s" "\<not> no_details w" "hs \<noteq> []"
      "image_loads w (page_of (hd (sort_key page_of hs)))"
    then obtain b bs where sk: "sort_key page_of hs = b # bs"
      by (cases "sort_key page_of hs") (auto dest: arg_cong [where f = length])
    with fe a have "find_entries (balloonMapping s) n = Inr (Some (b # bs))"
      by simp
    from loadDetails_found [OF a(2) a(1) this] a(4) sk
    show "fst (loadDetails w n s) = None
            \<and> currentPage (snd (loadDetails w n s)) = page_of (hd (sort_key page_of hs))
            \<and> balloonMapping (snd (loadDetails w n s)) (js_String n) = Some (sort_key page_of hs)"
      by simp
  qed
  show ?thesis
    using fe nf fd by (simp add: sort_key_stable)
qed

lemmas eval_details =
  loadDetails_def show_details_def show_balloons_def find_entries_def renderPage_def no_details_def
  page_of_def viewing_def details_world_def quiet_world_def set_pages_def initial_client_def
  scenario_def

theorem checklist_join_witness:
  "find_entries (balloonMapping (viewing scenario)) (Some (LStr ''12''))
     = Inr (Some [balloon_at (LNum 12) 1, balloon_at (LNum 12) 3])
   \<and> find_entries (balloonMapping (viewing scenario)) (Some (LStr ''8'')) = Inr None
   \<and> fst (loadDetails details_world (Some (LStr ''8'')) (viewing scenario)) = None
   \<and> last (trace (snd (loadDetails details_world (Some (LStr ''8'')) (viewing scenario))))
       = Alert ''Item is not found in the GA drawing''
   \<and> currentPage (snd (loadDetails details_world (Some (LStr ''12'')) (viewing scenario))) = 1"
proof -
  have a1: "fst (build_mapping (map JObject scenario)) = None"
    by (simp add: scenario_def eval_mapping)
  have a2: "balloonMapping (viewing scenario) = snd (build_mapping (map JObject scenario))"
    by (simp add: viewing_def)
  have k12: "\<not> inherited (js_String (Some (LStr ''12'')))"
    by (simp add: inherited_def object_prototype_def)
  have k8: "\<not> inherited (js_String (Some (LStr ''8'')))"
    by (simp add: inherited_def object_prototype_def)
  have h12: "[balloon_at (LNum 12) 3, balloon_at (LNum 12) 1] =
      filter (\<lambda>b. \<not> invalid_balloon b \<and> js_String (balloon_number b) = js_String (Some (LStr ''12'')))
        (objects (map JObject scenario))"
    by (simp add: scenario_def eval_mapping)
  have h8: "[] =
      filter (\<lambda>b. \<not> invalid_balloon b \<and> js_String (balloon_number b) = js_String (Some (LStr ''8'')))
        (objects (map JObject scenario))"
    by (simp add: scenario_def eval_mapping)
  have g: "gaLoaded (viewing scenario)" "\<not> no_details details_world"
    "image_loads details_world 1"
    by (simp_all add: eval_details)
  note j12 = checklist_join [OF a1 a2 k12 h12, of details_world]
  note j8 = checklist_join [OF a1 a2 k8 h8, of details_world]
  have s12: "sort_key page_of [balloon_at (LNum 12) 3, balloon_at (LNum 12) 1]
      = [balloon_at (LNum 12) 1, balloon_at (LNum 12) 3]"
    by (simp add: page_of_def balloon_at_def)
  from j12 j8 g show ?thesis
    by (simp add: s12 page_of_def balloon_at_def)
qed

text \<open>
  C1 as worded fails on a balloon numbered 0, which the guard drops although its number
  equals the FIND NUMBER 0, and in the first script, which keeps only the last balloon of a
  number (here the one on page 3 of the specification's scenario).
\<close>

theorem checklist_join_counterexample:
  "filter (\<lambda>b. balloon_number b = Some (LNum 0)) [balloon_at (LNum 0) 1] = [balloon_at (LNum 0) 1]
   \<and> find_entries (snd (build_mapping [JObject (balloon_at (LNum 0) 1)])) (Some (LNum 0)) = Inr None
   \<and> Option.bind
        (build_mapping_v1 [JObject (balloon_at (LNum 12) 1), JObject (balloon_at (LNum 7) 2),
                           JObject (balloon_at (LNum 12) 3)])
        (\<lambda>m. find_entry_v1 m (Some (LNum 12)))
       = Some (Some (balloon_at (LNum 12) 3))"
  by (simp add: find_entries_def find_entry_v1_def build_mapping_v1_def eval_mapping)

section \<open>Leaving the page cancels the job once\<close>

lemma cancel_signals_emit [simp]:
  "cancel_signals (emit e s) = cancel_signals s @ (if is_cancel_signal e then [e] else [])"
  by (simp add: cancel_signals_def)

lemma cancel_signals_update [simp]:
  "cancel_signals (s\<lparr>ga_job_id := j\<rparr>) = cancel_signals s"
  by (simp add: cancel_signals_def)

lemma handle_v3_idle: "\<not> truthy_str (ga_job_id s) \<Longrightarrow> handle_v3 e s = s"
  by (cases e) (simp_all add: beforeunload_v3_def pagehide_v3_def visibilitychange_v3_def)

lemma handle_all_v3_idle: "\<not> truthy_str (ga_job_id s) \<Longrightarrow> handle_all_v3 es s = s"
  by (induction es) (simp_all add: handle_v3_idle)

lemma beforeunload_stored:
  assumes "ga_job_id s = Some j" "j \<noteq> []"
  shows "cancel_signals (beforeunload s) = cancel_signals s @ [Beacon (cancel_url j)]"
    and "ga_job_id (beforeunload s) = None"
  using assms by (simp_all add: beforeunload_def js_str_def Let_def)

lemma beforeunload_idle:
  "\<not> truthy_str (ga_job_id s) \<Longrightarrow> cancel_signals (beforeunload s) = cancel_signals s"
  by (simp add: beforeunload_def Let_def)

lemma handle_v3_unloading:
  assumes "ga_job_id s = Some j" "j \<noteq> []" "unloading e"
  shows "handle_all_v3 (e # es) s = (emit (Beacon (cancel_url j)) s)\<lparr>ga_job_id := None\<rparr>"
proof -
  have "handle_v3 e s = (emit (Beacon (cancel_url j)) s)\<lparr>ga_job_id := None\<rparr>"
    using assms by (cases e) (simp_all add: beforeunload_v3_def pagehide_v3_def js_str_def)
  then show ?thesis
    by (simp add: handle_all_v3_idle)
qed

lemma handle_v3_hidden:
  assumes "ga_job_id s = Some j" "j \<noteq> []" "\<not> unloading e"
  shows "ga_job_id (handle_v3 e s) = Some j"
    and "cancel_signals (handle_v3 e s) = cancel_signals s @ hidden_signals j e"
  using assms by (cases e; simp add: visibilitychange_v3_def js_str_def Let_def)+

lemma handle_all_v3_stored:
  assumes "ga_job_id s = Some j" "j \<noteq> []"
  shows "cancel_signals (handle_all_v3 es s) =
           cancel_signals s @ concat (map (hidden_signals j) (takeWhile (\<lambda>e. \<not> unloading e) es))
             @ (if list_ex unloading es then [Beacon (cancel_url j)] else [])
       \<and> ga_job_id (handle_all_v3 es s) = (if list_ex unloading es then None else Some j)"
  using assms
proof (induction es arbitrary: s)
  case Nil
  then show ?case by simp
next
  case (Cons e es)
  show ?case
  proof (cases "unloading e")
    case True
    from handle_v3_unloading [OF Cons.prems True, of es] True show ?thesis
      by simp
  next
    case False
    note h = handle_v3_hidden [OF Cons.prems False]
    from Cons.IH [OF h(1) Cons.prems(2)] h(2) False show ?thesis
      by simp
  qed
qed

text \<open>
  C5, as amended. When the page unloads while a job id is stored, the current script's
  \<^verbatim>\<open>beforeunload\<close> handler sends exactly one beacon to \<^verbatim>\<open>/job/cancel/{job_id}\<close> and
  removes the stored id. In the second script of \<^verbatim>\<open>frontend/script.js\<close>, over every
  sequence of its three events, the first \<^verbatim>\<open>beforeunload\<close> or \<^verbatim>\<open>pagehide\<close> sends the one
  beacon and removes the id, and nothing is sent after it; each \<^verbatim>\<open>visibilitychange\<close> to
  hidden that comes before it also posts a cancel request (and a beacon when that request
  is rejected) and leaves the id stored. A beacon has no answer in the model: nothing
  waits for one. With no job id stored no handler sends anything.
\<close>

theorem unload_sends_one_cancellation:
  "(ga_job_id s = Some j \<and> j \<noteq> [] \<longrightarrow>
      cancel_signals (beforeunload s) = cancel_signals s @ [Beacon (cancel_url j)]
      \<and> ga_job_id (beforeunload s) = None
      \<and> cancel_signals (handle_all_v3 es s) =
          cancel_signals s @ concat (map (hidden_signals j) (takeWhile (\<lambda>e. \<not> unloading e) es))
            @ (if list_ex unloading es then [Beacon (cancel_url j)] else [])
      \<and> ga_job_id (handle_all_v3 es s) = (if list_ex unloading es then None else Some j))
   \<and> (\<not> truthy_str (ga_job_id s) \<longrightarrow>
        cancel_signals (beforeunload s) = cancel_signals s
        \<and> ga_job_id (beforeunload s) = ga_job_id s
        \<and> handle_all_v3 es s = s)"
  using beforeunload_stored [of s j] handle_all_v3_stored [of s j es]
    beforeunload_idle [of s] handle_all_v3_idle [of s es]
  by (auto simp: beforeunload_def Let_def)

theorem unload_sends_one_cancellation_witness:
  "cancel_signals (beforeunload job_stored) = [Beacon ''http://localhost:8000/job/cancel/job-1'']
   \<and> ga_job_id (beforeunload job_stored) = None
   \<and> cancel_signals (handle_all_v3 [BeforeUnload, PageHide, VisibilityChange True True] job_stored)
       = [Beacon ''http://localhost:8000/job/cancel/job-1'']
   \<and> ga_job_id (handle_all_v3 [BeforeUnload, PageHide, VisibilityChange True True] job_stored) = None
   \<and> cancel_signals (beforeunload initial_client) = []
   \<and> handle_all_v3 [BeforeUnload, PageHide, VisibilityChange True True] initial_client = initial_client"
proof -
  have j: "ga_job_id job_stored = Some ''job-1'' \<and> ''job-1'' \<noteq> []"
    by (simp add: job_stored_def)
  have n: "\<not> truthy_str (ga_job_id initial_client)"
    by (simp add: initial_client_def)
  have c0: "cancel_signals job_stored = []" "cancel_signals initial_client = []"
    by (simp_all add: cancel_signals_def job_stored_def initial_client_def)
  note a = unload_sends_one_cancellation [of job_stored "''job-1''"
      "[BeforeUnload, PageHide, VisibilityChange True True]"]
  note b = unload_sends_one_cancellation [of initial_client "''x''"
      "[BeforeUnload, PageHide, VisibilityChange True True]"]
  from a b j n c0 show ?thesis
    by (simp add: cancel_url_def API_def)
qed

text \<open>
  C5 as worded fails in the second script of \<^verbatim>\<open>frontend/script.js\<close> when the page is
  hidden before it unloads: the \<^verbatim>\<open>visibilitychange\<close> handler posts a cancel request and
  keeps the id, so the \<^verbatim>\<open>pagehide\<close> that follows sends a second signal; when the request
  is rejected there are three.
\<close>

theorem unload_sends_one_cancellation_counterexample:
  "cancel_signals (handle_all_v3 [VisibilityChange True False, PageHide] job_stored)
     = [Fetch (JobCancel ''job-1''), Beacon ''http://localhost:8000/job/cancel/job-1'']
   \<and> ga_job_id (handle_v3 (VisibilityChange True False) job_stored) = Some ''job-1''
   \<and> cancel_signals (handle_all_v3 [VisibilityChange True True, BeforeUnload] job_stored)
     = [Fetch (JobCancel ''job-1''), Beacon ''http://localhost:8000/job/cancel/job-1'',
        Beacon ''http://localhost:8000/job/cancel/job-1'']"
  by (simp add: visibilitychange_v3_def pagehide_v3_def beforeunload_v3_def job_stored_def
      initial_client_def cancel_signals_def emit_def js_str_def cancel_url_def API_def)

section \<open>A fresh run clears the checkpoint first\<close>

lemma requests_emit [simp]:
  "requests (emit e s) = requests s @ (if is_request e then [e] else [])"
  by (simp add: requests_def)

lemma trace_resetGAViewer [simp]: "trace (resetGAViewer s) = trace s"
  by (simp add: resetGAViewer_def)

lemma requests_resetGAViewer [simp]: "requests (resetGAViewer s) = requests s"
  by (simp add: requests_def)

lemma job_resetGAViewer [simp]:
  "ga_job_id (resetGAViewer s) = ga_job_id s" "gaPollTimer (resetGAViewer s) = gaPollTimer s"
  by (simp_all add: resetGAViewer_def)

lemma start_polling_simps [simp]:
  "trace (start_polling data s) = trace s"
  "requests (start_polling data s) = requests s"
  "ga_job_id (start_polling data s) = Some (js_str (job_id data))"
  "gaPollTimer (start_polling data s) = Some (js_str (job_id data))"
  by (simp_all add: start_polling_def pollJob_def stopPolling_def requests_def)

lemma startFresh_requests:
  "requests (startFreshGAProcessing w h s) = requests s @ [Fetch (ClearProgress h), Fetch (UploadGA True)]"
  by (simp add: startFreshGAProcessing_def Let_def split: reply.splits)

lemma startFresh_clear_reply:
  "startFreshGAProcessing (w\<lparr>clear_reply := r\<rparr>) h s = startFreshGAProcessing w h s"
  by (simp add: startFreshGAProcessing_def Let_def split: reply.splits)

lemma startFresh_started:
  assumes "force_reply w = Ok data"
  shows "trace (startFreshGAProcessing w h s)
           = trace s @ [Fetch (ClearProgress h), ShowProgress, Fetch (UploadGA True)]"
    and "ga_job_id (startFreshGAProcessing w h s) = Some (js_str (job_id data))"
    and "gaPollTimer (startFreshGAProcessing w h s) = Some (js_str (job_id data))"
  using assms by (simp_all add: startFreshGAProcessing_def Let_def split: reply.splits)

lemma startFresh_refused:
  assumes "\<forall>data. force_reply w \<noteq> Ok data"
  shows "ga_job_id (startFreshGAProcessing w h s) = ga_job_id s"
    and "gaPollTimer (startFreshGAProcessing w h s) = gaPollTimer s"
  using assms by (simp_all add: startFreshGAProcessing_def Let_def split: reply.splits)

lemma uploadGA_fresh:
  assumes "gaFile w = Some f" "upload_reply w = Ok u" "status u = Some ''resumable''"
    "progress_data u = Some p" "resume_choice w = Some Fresh"
  shows "uploadGA w s = startFreshGAProcessing w (js_str (file_hash u))
           (emit (ResumeDialog p) (emit (Fetch (UploadGA False)) s))"
  using assms by (simp add: uploadGA_def Let_def)

text \<open>
  C6. A forced fresh run, \<^verbatim>\<open>startFreshGAProcessing\<close>, sends the request that clears the
  checkpoint of the hash and only then the forced upload; the job id is stored and polled
  only from the answer to that upload. What the clear request is answered makes no
  difference to the run (a rejection, a status such as 404 for a checkpoint that does not
  exist, or success), so clearing an absent checkpoint is not an error. The fresh choice
  of the resume dialog runs this with the hash of the resumable answer.
\<close>

theorem fresh_run_clears_first:
  "requests (startFreshGAProcessing w h s)
     = requests s @ [Fetch (ClearProgress h), Fetch (UploadGA True)]
   \<and> startFreshGAProcessing (w\<lparr>clear_reply := r\<rparr>) h s = startFreshGAProcessing w h s
   \<and> (force_reply w = Ok data \<longrightarrow>
        trace (startFreshGAProcessing w h s)
          = trace s @ [Fetch (ClearProgress h), ShowProgress, Fetch (UploadGA True)]
        \<and> ga_job_id (startFreshGAProcessing w h s) = Some (js_str (job_id data))
        \<and> gaPollTimer (startFreshGAProcessing w h s) = Some (js_str (job_id data)))
   \<and> ((\<forall>d. force_reply w \<noteq> Ok d) \<longrightarrow>
        ga_job_id (startFreshGAProcessing w h s) = ga_job_id s
        \<and> gaPollTimer (startFreshGAProcessing w h s) = gaPollTimer s)
   \<and> (gaFile w = Some f \<and> upload_reply w = Ok u \<and> status u = Some ''resumable''
        \<and> progress_data u = Some p \<and> resume_choice w = Some Fresh \<longrightarrow>
        requests (uploadGA w s)
          = requests s @ [Fetch (UploadGA False), Fetch (ClearProgress (js_str (file_hash u))),
                          Fetch (UploadGA True)])"
  using startFresh_requests [of w h s] startFresh_clear_reply [of r w h s]
    startFresh_started [of w data h s] startFresh_refused [of w h s]
    uploadGA_fresh [of w f u p s]
  by (simp add: startFresh_requests)

theorem fresh_run_clears_first_witness:
  "trace (startFreshGAProcessing fresh_world ''abc'' initial_client)
     = [Fetch (ClearProgress ''abc''), ShowProgress, Fetch (UploadGA True)]
   \<and> ga_job_id (startFreshGAProcessing fresh_world ''abc'' initial_client) = Some ''job-2''
   \<and> gaPollTimer (startFreshGAProcessing fresh_world ''abc'' initial_client) = Some ''job-2''
   \<and> ga_job_id (startFreshGAProcessing quiet_world ''abc'' initial_client) = None
   \<and> requests (uploadGA fresh_world initial_client)
       = [Fetch (UploadGA False), Fetch (ClearProgress ''9e107d9d372bb6826bd81d3542a419d6''),
          Fetch (UploadGA True)]"
proof -
  have f: "force_reply fresh_world = Ok (job_reply ''job-2'')"
    and q: "\<forall>d. force_reply quiet_world \<noteq> Ok d"
    and u: "gaFile fresh_world = Some sample_file \<and> upload_reply fresh_world = Ok resumable_reply
        \<and> status resumable_reply = Some ''resumable''
        \<and> progress_data resumable_reply = Some sample_progress
        \<and> resume_choice fresh_world = Some Fresh"
    by (simp_all add: fresh_world_def quiet_world_def resumable_reply_def)
  note a = fresh_run_clears_first [of fresh_world "''abc''" initial_client Failed
      "job_reply ''job-2''" sample_file resumable_reply sample_progress]
  note b = fresh_run_clears_first [of quiet_world "''abc''" initial_client Failed
      "job_reply ''job-2''" sample_file resumable_reply sample_progress]
  from a b f q u show ?thesis
    by (simp add: initial_client_def requests_def job_reply_def js_str_def resumable_reply_def)
qed

section \<open>One upload, one outcome\<close>

lemma job_requests_emit [simp]:
  "job_requests (emit e s) = job_requests s @ (if is_job_request e then [e] else [])"
  by (simp add: job_requests_def)

lemma job_requests_frame [simp]:
  "job_requests (s\<lparr>balloonMapping := m\<rparr>) = job_requests s"
  "job_requests (set_pages n s) = job_requests s"
  "job_requests (s\<lparr>ga_job_id := j\<rparr>) = job_requests s"
  by (simp_all add: job_requests_def set_pages_def)

lemma set_pages_frame [simp]:
  "ga_job_id (set_pages n s) = ga_job_id s" "gaPollTimer (set_pages n s) = gaPollTimer s"
  "trace (set_pages n s) = trace s" "balloonMapping (set_pages n s) = balloonMapping s"
  "gaLoaded (set_pages n s)" "totalPages (set_pages n s) = n" "currentPage (set_pages n s) = 1"
  by (simp_all add: set_pages_def)

lemma loadBalloonMapping_frame:
  "ga_job_id (snd (loadBalloonMapping w s)) = ga_job_id s"
  "gaPollTimer (snd (loadBalloonMapping w s)) = gaPollTimer s"
  "job_requests (snd (loadBalloonMapping w s)) = job_requests s"
  by (simp_all add: loadBalloonMapping_def Let_def split: reply.splits results_body.splits)

lemma loadGA_frame:
  "ga_job_id (snd (loadGA w s)) = ga_job_id s"
  "gaPollTimer (snd (loadGA w s)) = gaPollTimer s"
  "job_requests (snd (loadGA w s)) = job_requests s"
  by (simp_all add: loadGA_def renderPage_def Let_def split: reply.splits)

lemma load_results_frame:
  "ga_job_id (snd (load_results w s)) = ga_job_id s"
  "gaPollTimer (snd (load_results w s)) = gaPollTimer s"
  "job_requests (snd (load_results w s)) = job_requests s"
  using loadBalloonMapping_frame [of w s] loadGA_frame [of w "snd (loadBalloonMapping w s)"]
  by (auto simp: load_results_def split: prod.splits option.splits)


lemma upload_failed_frame [simp]:
  "ga_job_id (upload_failed s) = ga_job_id s" "gaPollTimer (upload_failed s) = gaPollTimer s"
  "job_requests (upload_failed s) = job_requests s"
  by (simp_all add: upload_failed_def)

lemma uploadGA_cached:
  assumes "gaFile w = Some f" "upload_reply w = Ok data" "status data = Some ''cached''"
  shows "ga_job_id (uploadGA w s) = ga_job_id s"
    and "gaPollTimer (uploadGA w s) = gaPollTimer s"
    and "job_requests (uploadGA w s) = job_requests s @ [Fetch (UploadGA False)]"
  using assms
    load_results_frame [of w "emit HideProgress (emit (Fetch (UploadGA False)) s)"]
  by (auto simp: uploadGA_def Let_def split: prod.splits option.splits)







lemma upload_decide_cached:
  assumes "cache srv (computeHash content) = Some e"
  shows "upload_decide computeHash srv content session False
           = (Cached (page_count e) (length (cached_detections e)), srv)"
  using assms by (simp add: upload_decide_def)

lemma served_frame [simp]:
  "gaFile (served computeHash srv session w) = gaFile w"
  "results_reply (served computeHash srv session w) = results_reply w"
  "pages_reply (served computeHash srv session w) = pages_reply w"
  "image_loads (served computeHash srv session w) = image_loads w"
  "resume_choice (served computeHash srv session w) = resume_choice w"
  by (simp_all add: served_def split: option.splits)






lemma uploadGA_no_outcome:
  assumes "gaFile w = Some f" "upload_reply w = Ok data" "status data \<noteq> Some ''cached''"
    "status data \<noteq> Some ''resumable''" "\<not> truthy_str (job_id data)"
  shows "uploadGA w s = emit (Fetch (UploadGA False)) s"
  using assms by (simp add: uploadGA_def Let_def)






section \<open>Polling observes the end of a job\<close>

lemma load_results_job:
  "ga_job_id (snd (load_results w s)) = ga_job_id s"
  "gaPollTimer (snd (load_results w s)) = gaPollTimer s"
  using load_results_frame [of w s] by simp_all

lemma on_complete_complete:
  assumes "poll_status st = ''complete''"
  shows "gaPollTimer (on_complete w st s) = None" "ga_job_id (on_complete w st s) = None"
    "isProcessingCompletion (on_complete w st s) = False"
    "Fetch BalloonResults \<in> set (trace (on_complete w st s))"
    "HideProgress \<in> set (trace (on_complete w st s))"
proof -
  let ?s1 = "(stopPolling (s\<lparr>isProcessingCompletion := True\<rparr>))\<lparr>ga_job_id := None\<rparr>"
  have j: "ga_job_id (snd (load_results w ?s1)) = None" "gaPollTimer (snd (load_results w ?s1)) = None"
    using load_results_job [of w ?s1] by (simp_all add: stopPolling_def)
  have f: "Fetch BalloonResults \<in> set (trace (snd (load_results w ?s1)))"
    by (auto simp: load_results_def loadBalloonMapping_def loadGA_def renderPage_def Let_def
        split: prod.splits option.splits reply.splits results_body.splits)
  show "gaPollTimer (on_complete w st s) = None" "ga_job_id (on_complete w st s) = None"
    "isProcessingCompletion (on_complete w st s) = False"
    "Fetch BalloonResults \<in> set (trace (on_complete w st s))"
    "HideProgress \<in> set (trace (on_complete w st s))"
    using assms j f
    by (auto simp: on_complete_def Let_def split: prod.splits option.splits)
qed

text \<open>
  The current script observes every terminal report: the interval is stopped, the stored
  job id is removed, the progress modal is hidden, a completed job's results are requested
  and an error is alerted; once the interval is stopped no later answer changes anything.
  A report of any other state only updates the progress bar.
\<close>

lemma poll_tick_terminal:
  assumes "gaPollTimer s = Some j" "\<not> isProcessingCompletion s" "terminal (poll_status st)"
  shows "gaPollTimer (poll_tick w (Ok st) s) = None"
    and "ga_job_id (poll_tick w (Ok st) s) = None"
    and "HideProgress \<in> set (trace (poll_tick w (Ok st) s))"
    and "poll_status st = ''complete'' \<Longrightarrow> Fetch BalloonResults \<in> set (trace (poll_tick w (Ok st) s))"
    and "poll_status st = ''error'' \<Longrightarrow> \<exists>m. last (trace (poll_tick w (Ok st) s)) = Alert m"
    and "poll_tick w' r (poll_tick w (Ok st) s) = poll_tick w (Ok st) s"
proof -
  let ?t = "emit (UpdateProgress (poll_progress st)) (emit (Fetch (JobStatus j)) s)"
  have p: "poll_tick w (Ok st) s = on_error st (on_cancelled st (on_complete w st ?t))"
    using assms by (simp add: poll_tick_def Let_def)
  consider "poll_status st = ''complete''" | "poll_status st = ''cancelled''" | "poll_status st = ''error''"
    using assms(3) by (auto simp: terminal_def)
  then have all: "gaPollTimer (poll_tick w (Ok st) s) = None
      \<and> ga_job_id (poll_tick w (Ok st) s) = None
      \<and> HideProgress \<in> set (trace (poll_tick w (Ok st) s))
      \<and> (poll_status st = ''complete'' \<longrightarrow> Fetch BalloonResults \<in> set (trace (poll_tick w (Ok st) s)))
      \<and> (poll_status st = ''error'' \<longrightarrow> (\<exists>m. last (trace (poll_tick w (Ok st) s)) = Alert m))"
  proof cases
    case 1
    with on_complete_complete [OF 1, of w ?t] show ?thesis
      by (simp add: p on_cancelled_def on_error_def)
  next
    case 2
    then show ?thesis
      by (simp add: p on_complete_def on_cancelled_def on_error_def stopPolling_def)
  next
    case 3
    then show ?thesis
      by (simp add: p on_complete_def on_cancelled_def on_error_def stopPolling_def)
  qed
  then show "gaPollTimer (poll_tick w (Ok st) s) = None"
    and "ga_job_id (poll_tick w (Ok st) s) = None"
    and "HideProgress \<in> set (trace (poll_tick w (Ok st) s))"
    and "poll_status st = ''complete'' \<Longrightarrow> Fetch BalloonResults \<in> set (trace (poll_tick w (Ok st) s))"
    and "poll_status st = ''error'' \<Longrightarrow> \<exists>m. last (trace (poll_tick w (Ok st) s)) = Alert m"
    by simp_all
  from all show "poll_tick w' r (poll_tick w (Ok st) s) = poll_tick w (Ok st) s"
    by (simp add: poll_tick_def)
qed

lemma poll_tick_running:
  assumes "gaPollTimer s = Some j" "\<not> isProcessingCompletion s" "\<not> terminal (poll_status st)"
  shows "poll_tick w (Ok st) s = emit (UpdateProgress (poll_progress st)) (emit (Fetch (JobStatus j)) s)"
  using assms
  by (simp add: poll_tick_def Let_def terminal_def on_complete_def on_cancelled_def on_error_def)

text \<open>
  C4 fails in the short script at the end of \<^verbatim>\<open>part_000\<close>, whose callback tests for
  \<^verbatim>\<open>failed\<close> where the job reports \<^verbatim>\<open>error\<close>: on an \<^verbatim>\<open>error\<close> report it only updates
  the progress bar, the interval keeps polling and the job id stays stored. The current
  script, on the same report, stops, removes the id and alerts.
\<close>

theorem poll_v2_misses_error:
  "poll_tick_v2 (Ok error_report) job_stored
     = Some (emit (UpdateProgress 40) (emit (Fetch (JobStatus ''job-1'')) job_stored))
   \<and> map_option gaPollTimer (poll_tick_v2 (Ok error_report) job_stored) = Some (Some ''job-1'')
   \<and> map_option ga_job_id (poll_tick_v2 (Ok error_report) job_stored) = Some (Some ''job-1'')
   \<and> gaPollTimer (poll_tick quiet_world (Ok error_report) job_stored) = None
   \<and> ga_job_id (poll_tick quiet_world (Ok error_report) job_stored) = None
   \<and> trace (poll_tick quiet_world (Ok error_report) job_stored)
       = [Fetch (JobStatus ''job-1''), UpdateProgress 40, HideProgress,
          Alert ''GA processing error: Detection failed on page 3'']"
  by (simp add: poll_tick_v2_def poll_tick_def on_complete_def on_cancelled_def on_error_def
      stopPolling_def error_report_def job_stored_def initial_client_def Let_def js_str_def
      emit_def)

section \<open>The content hash of the client\<close>

text \<open>
  The hex string has two characters for each byte of the digest, so digests of one length
  give hashes of one length.
\<close>

lemma radix_digits_16_length:
  assumes "n < 256"
  shows "length (radix_digits 16 n) = (if n < 16 then 1 else 2)"
proof (cases "n < 16")
  case True
  then show ?thesis by (simp add: radix_digits.simps)
next
  case False
  with assms have "n div 16 < 16" by simp
  then have "radix_digits 16 (n div 16) = [digit_char (n div 16)]"
    by (simp add: radix_digits.simps)
  with False show ?thesis
    by (subst radix_digits.simps) simp
qed

lemma hex_byte_length: "length (hex_byte b) = 2"
proof -
  have "unat b < 256"
    using unsigned_less [of b] by simp
  from radix_digits_16_length [OF this] show ?thesis
    by (simp add: hex_byte_def padStart_def)
qed

lemma hex_string_length: "length (hex_string bs) = 2 * length bs"
  by (induction bs) (simp_all add: hex_string_def hex_byte_length)

lemma subtle_digest_MD5: "subtle_digest P ''MD5'' data = Inl NotSupportedError"
  by (simp add: subtle_digest_def ascii_upper_def)

lemma subtle_digest_sha256: "subtle_digest P ''sha-256'' data = Inr (sha256 P data)"
  by (simp add: subtle_digest_def ascii_upper_def)

text \<open>
  C7 fails in the client: \<^verbatim>\<open>forceReprocessGA\<close> asks \<^verbatim>\<open>crypto.subtle.digest\<close> for
  \<^verbatim>\<open>MD5\<close>, which is not one of its algorithms. For every file the digest is rejected, no
  hash is computed, and the fresh run that should follow is never started.
\<close>

theorem forceReprocessGA_computes_no_hash:
  "fileHash P f = Inl NotSupportedError
   \<and> forceReprocessGA P (w\<lparr>gaFile := Some f, confirmed := True\<rparr>) s = (Some NotSupportedError, s)"
  by (simp add: fileHash_def forceReprocessGA_def subtle_digest_MD5)

lemma hex_string_example: "hex_string [0x9e, 0x10, 0x0a, 0xff] = ''9e100aff''"
  by (simp add: hex_string_def hex_byte_def padStart_def radix_digits.simps digit_char_def)

section \<open>What sanitizeHTML protects\<close>

text \<open>
  In element content the escaped string reads back as the parser reads any text: with its
  newlines normalised and without NUL characters. So FIND NUMBER and PART DESCRIPTION, which
  the row template puts into cells, appear verbatim when they hold neither a CR nor a NUL.
  Inside the double-quoted \<^verbatim>\<open>value\<close> attribute the same holds only for a string without a
  double quote.
\<close>

lemma normalize_newlines_other:
  "c \<noteq> CHR 0x0D \<Longrightarrow> normalize_newlines (c # cs) = c # normalize_newlines cs"
  by (cases cs) simp_all

lemma normalize_newlines_CR:
  "normalize_newlines (CHR 0x0D # cs) =
     CHR 0x0A # (case cs of [] \<Rightarrow> [] | d # ds \<Rightarrow>
                   if d = CHR 0x0A then normalize_newlines ds else normalize_newlines (d # ds))"
  by (cases cs) simp_all

lemma normalize_newlines_append:
  "CHR 0x0D \<notin> set xs \<Longrightarrow> normalize_newlines (xs @ ys) = xs @ normalize_newlines ys"
  by (induction xs) (auto simp: normalize_newlines_other)

lemma normalize_newlines_id: "CHR 0x0D \<notin> set xs \<Longrightarrow> normalize_newlines xs = xs"
  using normalize_newlines_append [of xs "[]"] by simp

lemma escape_char_no_CR: "c \<noteq> CHR 0x0D \<Longrightarrow> CHR 0x0D \<notin> set (escape_char c)"
  by (simp add: escape_char_def)

lemma sanitizeHTML_Cons: "sanitizeHTML (c # cs) = escape_char c @ sanitizeHTML cs"
  by (simp add: sanitizeHTML_def)

lemma sanitizeHTML_no_CR: "CHR 0x0D \<notin> set str \<Longrightarrow> CHR 0x0D \<notin> set (sanitizeHTML str)"
  by (induction str) (auto simp: sanitizeHTML_Cons escape_char_def sanitizeHTML_def)

lemma normalize_newlines_sanitizeHTML:
  "normalize_newlines (sanitizeHTML str) = sanitizeHTML (normalize_newlines str)"
proof (induction str rule: normalize_newlines.induct)
  case 1
  show ?case by (simp add: sanitizeHTML_def)
next
  case (2 c)
  show ?case
    by (cases "c = CHR 0x0D")
      (simp_all add: sanitizeHTML_def escape_char_def normalize_newlines_id)
next
  case (3 c d cs)
  show ?case
  proof (cases "c = CHR 0x0D")
    case False
    then have "normalize_newlines (escape_char c @ sanitizeHTML (d # cs))
        = escape_char c @ normalize_newlines (sanitizeHTML (d # cs))"
      by (intro normalize_newlines_append escape_char_no_CR)
    with False 3 show ?thesis
      by (simp add: sanitizeHTML_Cons)
  next
    case True
    note c = this
    show ?thesis
    proof (cases "d = CHR 0x0A")
      case True
      with c 3 show ?thesis
        by (simp add: sanitizeHTML_Cons escape_char_def)
    next
      case False
      have "normalize_newlines (sanitizeHTML (c # d # cs))
          = CHR 0x0A # normalize_newlines (sanitizeHTML (d # cs))"
        using c False by (simp add: sanitizeHTML_Cons escape_char_def)
      with c False 3 show ?thesis
        by (simp add: sanitizeHTML_Cons escape_char_def)
    qed
  qed
qed

lemma decode_escape_char:
  "decode markup 0 (escape_char c @ rest) =
     (if c = CHR 0x00 then (if markup then decode markup 0 rest else None)
      else map_option ((#) c) (decode markup 0 rest))"
  by (simp add: escape_char_def char_ref_def eval_nat_numeral)

lemma decode_sanitizeHTML:
  "decode True 0 (sanitizeHTML str @ rest) =
     map_option ((@) (filter (\<lambda>c. c \<noteq> CHR 0x00) str)) (decode True 0 rest)"
proof (induction str)
  case Nil
  show ?case by (simp add: sanitizeHTML_def option.map_ident)
next
  case (Cons c str)
  have "sanitizeHTML (c # str) @ rest = escape_char c @ (sanitizeHTML str @ rest)"
    by (simp add: sanitizeHTML_def)
  then show ?case
    using Cons by (simp add: decode_escape_char option.map_comp comp_def)
qed

lemma decode_sanitizeHTML_attribute:
  "CHR 0x00 \<notin> set str \<Longrightarrow>
   decode False 0 (sanitizeHTML str @ rest) = map_option ((@) str) (decode False 0 rest)"
proof (induction str)
  case Nil
  show ?case by (simp add: sanitizeHTML_def option.map_ident)
next
  case (Cons c str)
  have "sanitizeHTML (c # str) @ rest = escape_char c @ (sanitizeHTML str @ rest)"
    by (simp add: sanitizeHTML_def)
  then show ?case
    using Cons by (auto simp: decode_escape_char option.map_comp comp_def)
qed

lemma cell_text_sanitizeHTML:
  "cell_text (sanitizeHTML str) = Some (filter (\<lambda>c. c \<noteq> CHR 0x00) (normalize_newlines str))"
  using decode_sanitizeHTML [of "normalize_newlines str" "[]"]
  by (simp add: cell_text_def normalize_newlines_sanitizeHTML)

lemma cell_text_verbatim:
  assumes "CHR 0x0D \<notin> set str" "CHR 0x00 \<notin> set str"
  shows "cell_text (sanitizeHTML str) = Some str"
proof -
  have "filter (\<lambda>c. c \<noteq> CHR 0x00) str = str"
    using assms(2) by (auto simp: filter_id_conv)
  then show ?thesis
    using assms(1) by (simp add: cell_text_sanitizeHTML normalize_newlines_id)
qed

lemma cell_text_CR_NUL:
  "cell_text (sanitizeHTML [CHR ''a'', CHR 0x0D, CHR ''b'', CHR 0x00]) = Some [CHR ''a'', CHR 0x0A, CHR ''b'']"
  by (simp add: cell_text_sanitizeHTML)

lemma quote_free_sanitizeHTML:
  "CHR 0x22 \<notin> set str \<Longrightarrow> CHR 0x22 \<notin> set (sanitizeHTML str)"
  by (induction str) (auto simp: sanitizeHTML_def escape_char_def)

lemma attribute_value_quote_free:
  assumes "CHR 0x22 \<notin> set str" "CHR 0x0D \<notin> set str" "CHR 0x00 \<notin> set str"
  shows "attribute_value (remarks_markup str) = Some str"
proof -
  have "normalize_newlines (sanitizeHTML str @ [CHR 0x22, CHR ''>''])
      = sanitizeHTML str @ [CHR 0x22, CHR ''>'']"
    using sanitizeHTML_no_CR [OF assms(2)] by (intro normalize_newlines_id) simp
  moreover have "takeWhile (\<lambda>c. c \<noteq> CHR 0x22) (sanitizeHTML str @ [CHR 0x22, CHR ''>''])
      = sanitizeHTML str"
    using quote_free_sanitizeHTML [OF assms(1)] by (subst takeWhile_append2) auto
  ultimately show ?thesis
    using decode_sanitizeHTML_attribute [OF assms(3), of "[]"]
    by (simp add: attribute_value_def remarks_markup_def)
qed

text \<open>
  C10 fails for the remarks: \<^verbatim>\<open>sanitizeHTML\<close> leaves a double quote as it is, and the row
  template puts the remarks into \<^verbatim>\<open>value="..."\<close>. The remark \<^verbatim>\<open>3" pipe\<close> is rendered with
  the value \<^verbatim>\<open>3\<close>; the rest is read as markup of the tag.
\<close>

theorem remarks_cut_at_quote:
  "sanitizeHTML inch_remark = inch_remark
   \<and> attribute_value (remarks_markup inch_remark) = Some ''3''
   \<and> attribute_value (remarks_markup inch_remark) \<noteq> Some inch_remark
   \<and> cell_text (sanitizeHTML inch_remark) = Some inch_remark"
  by (simp add: inch_remark_def sanitizeHTML_def escape_char_def attribute_value_def
      remarks_markup_def cell_text_def char_ref_def eval_nat_numeral)

section \<open>Uploading cached content again\<close>

lemma upload_again_cached:
  assumes "cache srv (computeHash content) = Some e"
  shows "upload_again computeHash srv content sessions
           = (replicate (length sessions) (Cached (page_count e) (length (cached_detections e))), srv)"
  using assms by (induction sessions) (simp_all add: upload_decide_cached)

lemma cache_complete_run:
  "cache (complete_run srv h n dets) h = Some \<lparr>page_count = n, cached_detections = dets\<rparr>"
  by (simp add: complete_run_def finalize_def clear_def Let_def)

text \<open>
  A completed run leaves its job in the state \<open>complete\<close>, so the hash is free again: a
  forced upload of the same content starts a new job.
\<close>

lemma complete_job_not_running:
  "job_hash (complete_job h j) = h \<Longrightarrow> job_state (complete_job h j) \<noteq> Running"
  by (simp add: complete_job_def split: if_splits)

lemma complete_run_frees_hash:
  "\<not> owned (complete_run srv h n dets) h"
  by (simp add: owned_def complete_run_def finalize_def clear_def Let_def list_ex_iff
      complete_job_not_running)

lemma forced_upload_after_completion:
  "map job_state (jobs done_server) = [Complete]"
  "fst (upload_decide length_hash done_server (file_bytes sample_file) ''session-b'' True) = Started 1"
  by (simp_all add: done_server_def busy_server_def complete_run_def finalize_def clear_def
      Let_def complete_job_def start_def owned_def empty_server_def upload_decide_def)

text \<open>
  C3. A run that completes leaves a cache entry for the hash of its content. While that
  entry is there, every upload of the same bytes without the force flag is answered
  \<^verbatim>\<open>cached\<close> with the same page count and detection count and leaves the server as it
  was, so no job is created. The client, given that answer, stores no job id, starts no
  polling, sends no further request that could start a job, and shows the summary.
\<close>

theorem cached_upload_idempotent:
  assumes "cache srv (computeHash content) = Some \<lparr>page_count = n, cached_detections = dets\<rparr>"
  shows "cache (complete_run srv0 h n dets) h = Some \<lparr>page_count = n, cached_detections = dets\<rparr>
       \<and> upload_again computeHash srv content sessions
           = (replicate (length sessions) (Cached n (length dets)), srv)
       \<and> (gaFile w = Some f \<and> file_bytes f = content
            \<and> upload_reply w = answer_of (computeHash (file_bytes f))
                                  (fst (upload_decide computeHash srv (file_bytes f) session False))
            \<longrightarrow>
              ga_job_id (uploadGA w s) = ga_job_id s
            \<and> gaPollTimer (uploadGA w s) = gaPollTimer s
            \<and> job_requests (uploadGA w s) = job_requests s @ [Fetch (UploadGA False)]
            \<and> (fst (load_results w (emit HideProgress (emit (Fetch (UploadGA False)) s))) = None \<longrightarrow>
                 last (trace (uploadGA w s)) =
                   Notification (''Loaded cached results: '' @ js_String_int (int (length dets)) @
                     '' balloons detected on '' @ js_String_int (int n) @ '' pages'')))"
proof -
  let ?e = "\<lparr>page_count = n, cached_detections = dets\<rparr>"
  have c: "cache srv (computeHash content) = Some ?e"
    by (rule assms)
  have 1: "upload_again computeHash srv content sessions
           = (replicate (length sessions) (Cached n (length dets)), srv)"
    using upload_again_cached [where computeHash = computeHash and content = content, OF c] by simp
  have 2: "gaFile w = Some f \<and> file_bytes f = content
            \<and> upload_reply w = answer_of (computeHash (file_bytes f))
                                  (fst (upload_decide computeHash srv (file_bytes f) session False))
            \<longrightarrow>
              ga_job_id (uploadGA w s) = ga_job_id s
            \<and> gaPollTimer (uploadGA w s) = gaPollTimer s
            \<and> job_requests (uploadGA w s) = job_requests s @ [Fetch (UploadGA False)]
            \<and> (fst (load_results w (emit HideProgress (emit (Fetch (UploadGA False)) s))) = None \<longrightarrow>
                 last (trace (uploadGA w s)) =
                   Notification (''Loaded cached results: '' @ js_String_int (int (length dets)) @
                     '' balloons detected on '' @ js_String_int (int n) @ '' pages''))"
  proof (intro impI, elim conjE)
    assume a: "gaFile w = Some f" "file_bytes f = content"
      "upload_reply w = answer_of (computeHash (file_bytes f))
                                  (fst (upload_decide computeHash srv (file_bytes f) session False))"
    define data where "data = \<lparr>status = Some ''cached'', job_id = None, detections = int (length dets),
        pages = int n, progress_data = None, file_hash = Some (computeHash content)\<rparr>"
    have r: "upload_reply w = Ok data"
      using a(2,3) upload_decide_cached [where computeHash = computeHash and content = content, OF c, of session]
      by (simp add: answer_of_def data_def)
    have st: "status data = Some ''cached''"
      by (simp add: data_def)
    note u = uploadGA_cached [OF a(1) r st, of s]
    have l: "fst (load_results w (emit HideProgress (emit (Fetch (UploadGA False)) s))) = None \<longrightarrow>
                 last (trace (uploadGA w s)) =
                   Notification (''Loaded cached results: '' @ js_String_int (int (length dets)) @
                     '' balloons detected on '' @ js_String_int (int n) @ '' pages'')"
      using a(1) r st
      by (auto simp: uploadGA_def Let_def cached_message_def data_def split: prod.splits option.splits)
    show "ga_job_id (uploadGA w s) = ga_job_id s
            \<and> gaPollTimer (uploadGA w s) = gaPollTimer s
            \<and> job_requests (uploadGA w s) = job_requests s @ [Fetch (UploadGA False)]
            \<and> (fst (load_results w (emit HideProgress (emit (Fetch (UploadGA False)) s))) = None \<longrightarrow>
                 last (trace (uploadGA w s)) =
                   Notification (''Loaded cached results: '' @ js_String_int (int (length dets)) @
                     '' balloons detected on '' @ js_String_int (int n) @ '' pages''))"
      using u l by simp
  qed
  show ?thesis using 1 2 by (simp add: cache_complete_run)
qed

theorem cached_upload_idempotent_witness:
  "upload_again length_hash finished_server (file_bytes sample_file) [''s1'', ''s2'', ''s1'']
     = ([Cached 3 3, Cached 3 3, Cached 3 3], finished_server)
   \<and> jobs finished_server = []
   \<and> answer_of (length_hash (file_bytes sample_file))
        (fst (upload_decide length_hash finished_server (file_bytes sample_file) ''s1'' False))
       = Ok (cached_reply\<lparr>file_hash := Some ''4''\<rparr>)
   \<and> ga_job_id (uploadGA (cached_world\<lparr>upload_reply := Ok (cached_reply\<lparr>file_hash := Some ''4''\<rparr>)\<rparr>)
        initial_client) = None
   \<and> gaPollTimer (uploadGA (cached_world\<lparr>upload_reply := Ok (cached_reply\<lparr>file_hash := Some ''4''\<rparr>)\<rparr>)
        initial_client) = None"
proof -
  let ?w = "cached_world\<lparr>upload_reply := Ok (cached_reply\<lparr>file_hash := Some ''4''\<rparr>)\<rparr>"
  have s: "cache finished_server (length_hash (file_bytes sample_file))
      = Some \<lparr>page_count = 3, cached_detections = scenario\<rparr>"
    by (simp add: finished_server_def cache_complete_run)
  have len: "length scenario = 3"
    by (simp add: scenario_def)
  have h: "length_hash (file_bytes sample_file) = ''4''"
    by (simp add: length_hash_def sample_file_def radix_digits.simps digit_char_def)
  have an: "answer_of (length_hash (file_bytes sample_file))
        (fst (upload_decide length_hash finished_server (file_bytes sample_file) ''s1'' False))
       = Ok (cached_reply\<lparr>file_hash := Some ''4''\<rparr>)"
    by (simp add: h answer_of_def upload_decide_def finished_server_def complete_run_def
        finalize_def clear_def empty_server_def cached_reply_def scenario_def Let_def)
  have w: "gaFile ?w = Some sample_file \<and> file_bytes sample_file = file_bytes sample_file
      \<and> upload_reply ?w = answer_of (length_hash (file_bytes sample_file))
          (fst (upload_decide length_hash finished_server (file_bytes sample_file) ''s1'' False))"
    by (simp add: an) (simp add: cached_world_def)
  note t = cached_upload_idempotent [where computeHash = length_hash
      and content = "file_bytes sample_file" and sessions = "[''s1'', ''s2'', ''s1'']" and w = ?w
      and f = sample_file and session = "''s1''" and s = initial_client, OF s]
  have j: "jobs finished_server = []"
    by (simp add: finished_server_def complete_run_def finalize_def clear_def empty_server_def
        Let_def)
  from t w an j len show ?thesis
    by (simp add: initial_client_def)
qed

end
